theory Spec2Isabelle
  imports Complex_Main
begin

section \<open>The operating system as seen by optimizer.py\<close>

text \<open>
  The program talks to the system through three Python calls:
  \<^verbatim>\<open>subprocess.check_call(argv)\<close>, \<^verbatim>\<open>subprocess.check_output(argv, text=True)\<close> and
  \<^verbatim>\<open>open(path, "w").write(text)\<close>. A \<open>call\<close> records one such attempt with its
  arguments. An \<open>env\<close> fixes the outcome of every attempt: \<open>None\<close> (or \<open>Inr out\<close>)
  when it succeeds, and the text \<open>str(e)\<close> of the exception when it raises. Every
  \<^verbatim>\<open>except Exception\<close> of the source is a branch on that outcome.
\<close>

datatype call =
    Check_call "string list"
  | Check_output "string list"
  | Write_file string string

record env =
  call_result :: "string list \<Rightarrow> string option"
  output_result :: "string list \<Rightarrow> string + string"
  file_result :: "string \<Rightarrow> string \<Rightarrow> string option"

datatype dialog =
    Warning string string
  | Information string string

text \<open>
  What one invocation of a method does to the outside: the calls it attempted (in order),
  the lines it printed, the message boxes it showed, and the final content of its local
  list \<^verbatim>\<open>error_messages\<close>.
\<close>

record run =
  trace :: "call list"
  stdout :: "string list"
  dialogs :: "dialog list"
  error_messages :: "string list"

definition no_run :: run where
  "no_run = \<lparr>trace = [], stdout = [], dialogs = [], error_messages = []\<rparr>"

definition check_call :: "env \<Rightarrow> string list \<Rightarrow> run \<Rightarrow> string option \<times> run" where
  "check_call e argv r = (call_result e argv, r\<lparr>trace := trace r @ [Check_call argv]\<rparr>)"

definition check_output :: "env \<Rightarrow> string list \<Rightarrow> run \<Rightarrow> (string + string) \<times> run" where
  "check_output e argv r = (output_result e argv, r\<lparr>trace := trace r @ [Check_output argv]\<rparr>)"

definition write_file :: "env \<Rightarrow> string \<Rightarrow> string \<Rightarrow> run \<Rightarrow> string option \<times> run" where
  "write_file e path content r =
     (file_result e path content, r\<lparr>trace := trace r @ [Write_file path content]\<rparr>)"

definition print :: "string \<Rightarrow> run \<Rightarrow> run" where
  "print line r = r\<lparr>stdout := stdout r @ [line]\<rparr>"

definition fail :: "string \<Rightarrow> run \<Rightarrow> run" where
  "fail msg r = r\<lparr>error_messages := error_messages r @ [msg]\<rparr>"

definition show_dialog :: "dialog \<Rightarrow> run \<Rightarrow> run" where
  "show_dialog d r = r\<lparr>dialogs := dialogs r @ [d]\<rparr>"

section \<open>Python's string and number functions\<close>

text \<open>
  Strings are lists of 8-bit characters; the \<^verbatim>\<open>str\<close> methods are modelled on ASCII
  text, which is what ethtool, iw and sysctl print.
\<close>

definition is_space :: "char \<Rightarrow> bool" where
  "is_space c = (c \<in> set [CHR '' '', CHR 0x09, CHR 0x0A, CHR 0x0B, CHR 0x0C, CHR 0x0D,
                           CHR 0x1C, CHR 0x1D, CHR 0x1E, CHR 0x1F])"

definition strip :: "string \<Rightarrow> string" where
  "strip s = rev (dropWhile is_space (rev (dropWhile is_space s)))"

definition lower_char :: "char \<Rightarrow> char" where
  "lower_char c =
     (let n = (of_char c :: nat) in if 65 \<le> n \<and> n \<le> 90 then char_of (n + 32) else c)"

definition lower :: "string \<Rightarrow> string" where
  "lower s = map lower_char s"

text \<open>\<^verbatim>\<open>sub in s\<close>\<close>

fun contains :: "string \<Rightarrow> string \<Rightarrow> bool" where
  "contains sub [] = (sub = [])"
| "contains sub (c # cs) = (take (length sub) (c # cs) = sub \<or> contains sub cs)"

text \<open>\<^verbatim>\<open>s.split(":")[-1]\<close>: the text after the last colon, all of \<open>s\<close> when it has none.\<close>

definition after_last_colon :: "string \<Rightarrow> string" where
  "after_last_colon s = rev (takeWhile (\<lambda>c. c \<noteq> CHR '':'') (rev s))"

text \<open>
  \<^verbatim>\<open>s.splitlines()\<close>: the line boundaries are \<^verbatim>\<open>\n\<close>, \<^verbatim>\<open>\r\<close>, \<^verbatim>\<open>\r\n\<close>,
  \<^verbatim>\<open>\v\<close>, \<^verbatim>\<open>\f\<close> and the separators 0x1C to 0x1E; no empty last line.
\<close>

definition is_linebreak :: "char \<Rightarrow> bool" where
  "is_linebreak c = (c \<in> set [CHR 0x0A, CHR 0x0B, CHR 0x0C, CHR 0x0D, CHR 0x1C, CHR 0x1D, CHR 0x1E])"

fun splitlines_acc :: "string \<Rightarrow> string \<Rightarrow> string list" where
  "splitlines_acc cur [] = (if cur = [] then [] else [cur])"
| "splitlines_acc cur (c # cs) =
     (if c = CHR 0x0D \<and> cs \<noteq> [] \<and> hd cs = CHR 0x0A then cur # splitlines_acc [] (tl cs)
      else if is_linebreak c then cur # splitlines_acc [] cs
      else splitlines_acc (cur @ [c]) cs)"

definition splitlines :: "string \<Rightarrow> string list" where
  "splitlines s = splitlines_acc [] s"

text \<open>\<^verbatim>\<open>sep.join(xs)\<close>\<close>

fun join :: "string \<Rightarrow> string list \<Rightarrow> string" where
  "join sep [] = []"
| "join sep [x] = x"
| "join sep (x # y # ys) = x @ sep @ join sep (y # ys)"

text \<open>\<^verbatim>\<open>str(n)\<close> for an integer.\<close>

definition digit_char :: "int \<Rightarrow> char" where
  "digit_char d = char_of (48 + d)"

function str_digits :: "int \<Rightarrow> string" where
  "str_digits n =
     (if n < 10 then [digit_char n] else str_digits (n div 10) @ [digit_char (n mod 10)])"
  by pat_completeness auto
termination
  by (relation "measure nat") auto

declare str_digits.simps [simp del]

definition str_int :: "int \<Rightarrow> string" where
  "str_int i = (if i < 0 then CHR ''-'' # str_digits (- i) else str_digits i)"

text \<open>
  \<^verbatim>\<open>int(s)\<close> for a string: surrounding whitespace, an optional sign, then decimal
  digits, which single underscores may separate. \<open>None\<close> is \<^verbatim>\<open>ValueError\<close>.
\<close>

definition is_digit :: "char \<Rightarrow> bool" where
  "is_digit c = (let n = (of_char c :: nat) in 48 \<le> n \<and> n \<le> 57)"

fun digits_ok :: "string \<Rightarrow> bool" where
  "digits_ok [] = False"
| "digits_ok [c] = is_digit c"
| "digits_ok (c # d # cs) =
     (is_digit c \<and> (if d = CHR ''_'' then digits_ok cs else digits_ok (d # cs)))"

definition int_of_digits :: "string \<Rightarrow> int" where
  "int_of_digits ds = foldl (\<lambda>acc c. 10 * acc + (of_char c - 48)) 0 ds"

definition py_int :: "string \<Rightarrow> int option" where
  "py_int s =
     (let t = strip s;
          neg = (t \<noteq> [] \<and> hd t = CHR ''-'');
          body = (if t \<noteq> [] \<and> (hd t = CHR ''-'' \<or> hd t = CHR ''+'') then tl t else t)
      in if digits_ok body
         then Some ((if neg then - 1 else 1) * int_of_digits (filter is_digit body))
         else None)"

text \<open>\<^verbatim>\<open>int(x)\<close> for a float truncates towards zero.\<close>

definition py_trunc :: "real \<Rightarrow> int" where
  "py_trunc x = (if 0 \<le> x then \<lfloor>x\<rfloor> else \<lceil>x\<rceil>)"

text \<open>\<^verbatim>\<open>round(x)\<close> for a float rounds to the nearest integer, a tie to the even one.\<close>

definition py_round :: "real \<Rightarrow> int" where
  "py_round x =
     (let f = \<lfloor>x\<rfloor>; d = x - of_int f
      in if d < 1 / 2 then f else if 1 / 2 < d then f + 1 else if even f then f else f + 1)"

text \<open>
  \<^verbatim>\<open>repr(v * 0.5)\<close> for an integer \<open>v\<close>, as the f-string prints it (below
  \<open>10^16\<close>, where Python prints a float without an exponent).
\<close>

definition str_half :: "int \<Rightarrow> string" where
  "str_half v =
     (if v < 0 then ''-'' else []) @ str_digits (\<bar>v\<bar> div 2) @ (if even v then ''.0'' else ''.5'')"

section \<open>The state of NetworkOptimizer\<close>

text \<open>
  An inner dictionary of \<^verbatim>\<open>interface_defaults\<close> maps \<^verbatim>\<open>'tso'\<close>, \<^verbatim>\<open>'gso'\<close>,
  \<^verbatim>\<open>'gro'\<close> and \<^verbatim>\<open>'power_save'\<close> to \<^verbatim>\<open>True\<close>, \<^verbatim>\<open>False\<close> or \<^verbatim>\<open>None\<close>
  (here \<open>Some True\<close>, \<open>Some False\<close>, \<open>None\<close>); a key may be absent.
\<close>

type_synonym snapshot = "string \<rightharpoonup> bool option"

record state =
  global_defaults :: "(string \<times> string) list"
  interface_defaults :: "string \<rightharpoonup> snapshot"
  current_interface :: "string option"
  available_interfaces :: "string list"
  tsoCheckBox :: bool
  gsoCheckBox :: bool
  groCheckBox :: bool
  powerSaveCheckBox_enabled :: bool
  powerSaveCheckBox :: bool
  bufferSlider :: int
  tcpComboBox :: string

text \<open>\<^verbatim>\<open>d.get(k, default)\<close> and the truth value of the result.\<close>

definition dict_get :: "snapshot \<Rightarrow> string \<Rightarrow> bool option \<Rightarrow> bool option" where
  "dict_get d k dflt = (case d k of None \<Rightarrow> dflt | Some v \<Rightarrow> v)"

definition truthy :: "bool option \<Rightarrow> bool" where
  "truthy v = (v = Some True)"

text \<open>
  The widgets as \<^verbatim>\<open>initUI\<close> configures them: the slider has minimum 1 and maximum 8,
  and \<^verbatim>\<open>QSlider.setValue\<close> bounds its argument by them; the combo box offers
  \<^verbatim>\<open>cubic\<close> and \<^verbatim>\<open>bbr\<close>, and \<open>tcpComboBox\<close> is its current text.
\<close>

definition bufferSlider_setValue :: "int \<Rightarrow> state \<Rightarrow> state" where
  "bufferSlider_setValue v s = s\<lparr>bufferSlider := max 1 (min 8 v)\<rparr>"

definition tcp_items :: "string list" where
  "tcp_items = [''cubic'', ''bbr'']"

section \<open>apply_settings\<close>

definition apply_tso :: "env \<Rightarrow> state \<Rightarrow> string \<Rightarrow> run \<Rightarrow> run" where
  "apply_tso e s interface r =
     (if tsoCheckBox s then
        (case check_call e [''ethtool'', ''-K'', interface, ''tso'', ''off''] r of
           (None, r') \<Rightarrow> print (''Successfully disabled TSO on '' @ interface @ ''.'') r'
         | (Some ex, r') \<Rightarrow> fail (''Failed to set TSO for '' @ interface @ '': '' @ ex) r')
      else
        (case check_call e [''ethtool'', ''-K'', interface, ''tso'', ''on''] r of
           (None, r') \<Rightarrow> print (''Successfully enabled TSO on '' @ interface @ ''.'') r'
         | (Some ex, r') \<Rightarrow> fail (''Failed to set TSO for '' @ interface @ '': '' @ ex) r'))"

definition apply_gso :: "env \<Rightarrow> state \<Rightarrow> string \<Rightarrow> run \<Rightarrow> run" where
  "apply_gso e s interface r =
     (if gsoCheckBox s then
        (case check_call e [''ethtool'', ''-K'', interface, ''gso'', ''off''] r of
           (None, r') \<Rightarrow> print (''Successfully disabled GSO on '' @ interface @ ''.'') r'
         | (Some ex, r') \<Rightarrow> fail (''Failed to set GSO for '' @ interface @ '': '' @ ex) r')
      else
        (case check_call e [''ethtool'', ''-K'', interface, ''gso'', ''on''] r of
           (None, r') \<Rightarrow> print (''Successfully enabled GSO on '' @ interface @ ''.'') r'
         | (Some ex, r') \<Rightarrow> fail (''Failed to set GSO for '' @ interface @ '': '' @ ex) r'))"

definition apply_gro :: "env \<Rightarrow> state \<Rightarrow> string \<Rightarrow> run \<Rightarrow> run" where
  "apply_gro e s interface r =
     (if groCheckBox s then
        (case check_call e [''ethtool'', ''-K'', interface, ''gro'', ''off''] r of
           (None, r') \<Rightarrow> print (''Successfully disabled GRO on '' @ interface @ ''.'') r'
         | (Some ex, r') \<Rightarrow> fail (''Failed to set GRO for '' @ interface @ '': '' @ ex) r')
      else
        (case check_call e [''ethtool'', ''-K'', interface, ''gro'', ''on''] r of
           (None, r') \<Rightarrow> print (''Successfully enabled GRO on '' @ interface @ ''.'') r'
         | (Some ex, r') \<Rightarrow> fail (''Failed to set GRO for '' @ interface @ '': '' @ ex) r'))"

definition nm_conf_path :: string where
  "nm_conf_path = ''/etc/NetworkManager/conf.d/default-wifi-powersave-on.conf''"

definition nm_conf_text :: string where
  "nm_conf_text = ''[connection]\<newline>wifi.powersave = 2\<newline>''"

text \<open>
  The \<^verbatim>\<open>try\<close> block of the power-saving section first, as a value: the exception it
  raised, if any. The handler follows in \<open>apply_power_save\<close>.
\<close>

definition apply_power_save_try :: "env \<Rightarrow> state \<Rightarrow> string \<Rightarrow> run \<Rightarrow> string option \<times> run" where
  "apply_power_save_try e s interface r =
     (if powerSaveCheckBox s then
        (case check_call e [''iw'', ''dev'', interface, ''set'', ''power_save'', ''off''] r of
           (None, r') \<Rightarrow>
             (None, print (''Successfully disabled power saving via iw on '' @ interface @ ''.'') r')
         | (Some ex, r') \<Rightarrow> (Some ex, r'))
      else
        (case check_call e [''iw'', ''dev'', interface, ''set'', ''power_save'', ''on''] r of
           (None, r') \<Rightarrow>
             (None, print (''Successfully enabled power saving via iw on '' @ interface @ ''.'') r')
         | (Some ex, r') \<Rightarrow> (Some ex, r')))"

definition apply_power_save :: "env \<Rightarrow> state \<Rightarrow> string \<Rightarrow> run \<Rightarrow> run" where
  "apply_power_save e s interface r =
     (if powerSaveCheckBox_enabled s then
        (case apply_power_save_try e s interface r of
           (None, r') \<Rightarrow> r'
         | (Some ex, r') \<Rightarrow>
             (if powerSaveCheckBox s then
                (case write_file e nm_conf_path nm_conf_text r' of
                   (None, r'') \<Rightarrow>
                     print (''Successfully disabled power saving via NetworkManager config on ''
                            @ interface @ ''.'') r''
                 | (Some ex2, r'') \<Rightarrow>
                     fail (''Failed to disable power saving for '' @ interface
                           @ '' (fallback via NM config also failed): '' @ ex2) r'')
              else fail (''Failed to set power saving for '' @ interface @ '': '' @ ex) r'))
      else r)"

text \<open>
  Line 476, \<^verbatim>\<open>int(self.bufferSlider.value() * 0.5 * 1048576)\<close>. Both products are exact
  on floats for a slider value (a small integer times powers of two), so the value is
  computed on the reals.
\<close>

definition buffer_value :: "int \<Rightarrow> int" where
  "buffer_value v = py_trunc (real_of_int v * 0.5 * 1048576)"

definition apply_buffers :: "env \<Rightarrow> state \<Rightarrow> string \<Rightarrow> run \<Rightarrow> run" where
  "apply_buffers e s interface r =
     (case check_call e [''sysctl'', ''-w'',
                         ''net.core.rmem_max='' @ str_int (buffer_value (bufferSlider s))] r of
        (Some ex, r') \<Rightarrow> fail (''Failed to set buffer sizes: '' @ ex) r'
      | (None, r') \<Rightarrow>
          (case check_call e [''sysctl'', ''-w'',
                              ''net.core.wmem_max='' @ str_int (buffer_value (bufferSlider s))] r' of
             (Some ex, r'') \<Rightarrow> fail (''Failed to set buffer sizes: '' @ ex) r''
           | (None, r'') \<Rightarrow>
               print (''Successfully set buffer sizes to '' @ str_half (bufferSlider s)
                      @ '' MB on '' @ interface @ ''.'') r''))"

definition apply_tcp_cc :: "env \<Rightarrow> state \<Rightarrow> string \<Rightarrow> run \<Rightarrow> run" where
  "apply_tcp_cc e s interface r =
     (case check_call e [''sysctl'', ''-w'',
                         ''net.ipv4.tcp_congestion_control='' @ tcpComboBox s] r of
        (None, r') \<Rightarrow>
          print (''Successfully set TCP congestion control to '' @ tcpComboBox s
                 @ '' on '' @ interface @ ''.'') r'
      | (Some ex, r') \<Rightarrow> fail (''Failed to set TCP congestion control: '' @ ex) r')"

text \<open>Lines 420 to 490: the six sections in the order of the source.\<close>

definition apply_steps :: "env \<Rightarrow> state \<Rightarrow> string \<Rightarrow> run" where
  "apply_steps e s interface =
     apply_tcp_cc e s interface
       (apply_buffers e s interface
         (apply_power_save e s interface
           (apply_gro e s interface
             (apply_gso e s interface
               (apply_tso e s interface no_run)))))"

definition print_all :: "string list \<Rightarrow> run \<Rightarrow> run" where
  "print_all msgs r = foldl (\<lambda>acc m. print m acc) r msgs"

definition apply_settings :: "env \<Rightarrow> state \<Rightarrow> run" where
  "apply_settings e s =
     (case current_interface s of
        None \<Rightarrow> show_dialog (Warning ''Error'' ''No network interface selected.'') no_run
      | Some interface \<Rightarrow>
          if interface = [] then
            show_dialog (Warning ''Error'' ''No network interface selected.'') no_run
          else
            (let r = apply_steps e s interface in
             if error_messages r \<noteq> [] then
               print_all (error_messages r)
                 (print ''Errors occurred during applying settings:''
                   (show_dialog (Warning ''Errors Occurred'' (join ''\<newline>'' (error_messages r))) r))
             else
               print ''All settings applied successfully.''
                 (show_dialog (Information ''Success'' ''Settings applied successfully.'') r)))"

section \<open>load_interface_settings\<close>

text \<open>One round of the loop over \<^verbatim>\<open>output.splitlines()\<close> (lines 302 to 312).\<close>

definition parse_offload_line :: "snapshot \<Rightarrow> string \<Rightarrow> snapshot" where
  "parse_offload_line d line0 =
     (let line = strip line0 in
      if contains ''tcp-segmentation-offload:'' line \<or> contains ''tso:'' line then
        d(''tso'' \<mapsto> Some (lower (strip (after_last_colon line)) = ''on''))
      else if contains ''generic-segmentation-offload:'' line \<or> contains ''gso:'' line then
        d(''gso'' \<mapsto> Some (lower (strip (after_last_colon line)) = ''on''))
      else if contains ''generic-receive-offload:'' line \<or> contains ''gro:'' line then
        d(''gro'' \<mapsto> Some (lower (strip (after_last_colon line)) = ''on''))
      else d)"

definition detect_offloading :: "env \<Rightarrow> string \<Rightarrow> snapshot \<Rightarrow> run \<Rightarrow> snapshot \<times> run" where
  "detect_offloading e interface d r =
     (case check_output e [''ethtool'', ''-k'', interface] r of
        (Inr output, r') \<Rightarrow> (foldl parse_offload_line d (splitlines output), r')
      | (Inl ex, r') \<Rightarrow>
          (d(''tso'' \<mapsto> Some True, ''gso'' \<mapsto> Some True, ''gro'' \<mapsto> Some True),
           show_dialog (Warning ''Warning''
             (''Failed to get offloading settings for '' @ interface @ '':\<newline>'' @ ex)) r'))"

definition detect_power_save :: "env \<Rightarrow> string \<Rightarrow> snapshot \<Rightarrow> run \<Rightarrow> snapshot \<times> run" where
  "detect_power_save e interface d r =
     (case check_output e [''iw'', ''dev'', interface, ''get'', ''power_save''] r of
        (Inr output, r') \<Rightarrow>
          (if contains ''off'' (lower (strip output))
           then d(''power_save'' \<mapsto> Some False)
           else d(''power_save'' \<mapsto> Some True), r')
      | (Inl ex, r') \<Rightarrow> (d(''power_save'' \<mapsto> None), r'))"

text \<open>
  Lines 295 to 332: the snapshot of \<open>interface\<close>, detected if the dictionary has none.
  The result is the dictionary \<^verbatim>\<open>self.interface_defaults[interface]\<close> of line 335.
\<close>

definition ensure_defaults :: "env \<Rightarrow> string \<Rightarrow> state \<Rightarrow> run \<Rightarrow> snapshot \<times> state \<times> run" where
  "ensure_defaults e interface s r =
     (case interface_defaults s interface of
        Some d \<Rightarrow> (d, s, r)
      | None \<Rightarrow>
          (case detect_offloading e interface Map.empty r of (d1, r1) \<Rightarrow>
           case detect_power_save e interface d1 r1 of (d2, r2) \<Rightarrow>
             (d2, s\<lparr>interface_defaults := (interface_defaults s)(interface \<mapsto> d2)\<rparr>, r2)))"

text \<open>Lines 334 to 348: the check boxes follow the snapshot.\<close>

definition update_checkboxes :: "snapshot \<Rightarrow> state \<Rightarrow> state" where
  "update_checkboxes defaults s =
     (let s1 = s\<lparr>tsoCheckBox := \<not> truthy (dict_get defaults ''tso'' (Some True)),
                  gsoCheckBox := \<not> truthy (dict_get defaults ''gso'' (Some True)),
                  groCheckBox := \<not> truthy (dict_get defaults ''gro'' (Some True))\<rparr>
      in if dict_get defaults ''power_save'' None \<noteq> None then
           s1\<lparr>powerSaveCheckBox_enabled := True,
              powerSaveCheckBox := \<not> truthy (dict_get defaults ''power_save'' None)\<rparr>
         else
           s1\<lparr>powerSaveCheckBox_enabled := False, powerSaveCheckBox := False\<rparr>)"

text \<open>
  \<^verbatim>\<open>repr(s)\<close> inside the message of a \<^verbatim>\<open>ValueError\<close>, for text without quotes,
  backslashes or control characters.
\<close>

definition py_repr :: "string \<Rightarrow> string" where
  "py_repr s = [CHR 0x27] @ s @ [CHR 0x27]"

text \<open>
  Lines 354 to 356, from the stripped text \<open>rmem\<close> to the slider value, or to the text of
  the exception. \<^verbatim>\<open>int(rmem) / 1048576\<close> and the division by \<^verbatim>\<open>0.5\<close> are exact on
  floats for every integer below \<open>2^53\<close>, and beyond it the quotient is so large that
  the bounds decide; so the value is computed on the reals. Python raises
  \<^verbatim>\<open>OverflowError\<close> where the quotient, or its double, leaves the range of a float.
\<close>

definition slider_value_of :: "string \<Rightarrow> string + int" where
  "slider_value_of rmem =
     (case py_int rmem of
        None \<Rightarrow> Inl (''invalid literal for int() with base 10: '' @ py_repr rmem)
      | Some n \<Rightarrow>
          (let buffer_mb = real_of_int n / 1048576 in
           if 2 ^ 1024 - 2 ^ 970 \<le> \<bar>buffer_mb\<bar> then
             Inl ''integer division result too large for a float''
           else if 2 ^ 1023 - 2 ^ 969 \<le> \<bar>buffer_mb\<bar> then
             Inl ''cannot convert float infinity to integer''
           else Inr (max 1 (min 8 (py_round (buffer_mb / 0.5))))))"

definition load_buffer_size :: "env \<Rightarrow> state \<Rightarrow> run \<Rightarrow> state \<times> run" where
  "load_buffer_size e s r =
     (case check_output e [''sysctl'', ''-n'', ''net.core.rmem_max''] r of
        (Inl ex, r') \<Rightarrow>
          (s, show_dialog (Warning ''Warning'' (''Failed to get buffer sizes:\<newline>'' @ ex)) r')
      | (Inr output, r') \<Rightarrow>
          (case slider_value_of (strip output) of
             Inl ex \<Rightarrow>
               (s, show_dialog (Warning ''Warning'' (''Failed to get buffer sizes:\<newline>'' @ ex)) r')
           | Inr slider_value \<Rightarrow> (bufferSlider_setValue slider_value s, r')))"

definition load_tcp_cc :: "env \<Rightarrow> state \<Rightarrow> run \<Rightarrow> state \<times> run" where
  "load_tcp_cc e s r =
     (case check_output e [''sysctl'', ''-n'', ''net.ipv4.tcp_congestion_control''] r of
        (Inl ex, r') \<Rightarrow>
          (s, show_dialog (Warning ''Warning''
                (''Failed to get TCP congestion control:\<newline>'' @ ex)) r')
      | (Inr output, r') \<Rightarrow>
          (if strip output \<in> set tcp_items then (s\<lparr>tcpComboBox := strip output\<rparr>, r')
           else (s, r')))"

definition load_interface_settings :: "env \<Rightarrow> string \<Rightarrow> state \<Rightarrow> run \<Rightarrow> state \<times> run" where
  "load_interface_settings e interface s r =
     (case ensure_defaults e interface (s\<lparr>current_interface := Some interface\<rparr>) r of
        (defaults, s1, r1) \<Rightarrow>
          (case load_buffer_size e (update_checkboxes defaults s1) r1 of
             (s2, r2) \<Rightarrow> load_tcp_cc e s2 r2))"

definition on_interface_change :: "env \<Rightarrow> string \<Rightarrow> state \<Rightarrow> run \<Rightarrow> state \<times> run" where
  "on_interface_change e interface s r = load_interface_settings e interface s r"

section \<open>load_global_defaults\<close>

text \<open>
  \<^verbatim>\<open>global_defaults\<close> is a dictionary from the name of a kernel parameter to its text,
  kept as the list of its items; \<open>dict_store\<close> is \<^verbatim>\<open>d[k] = v\<close> and \<open>map_of\<close>
  looks a key up. The three reads share one \<^verbatim>\<open>try\<close> block and the three stores
  follow the last read: the dictionary gets all three keys or none.
\<close>

fun dict_store :: "string \<Rightarrow> string \<Rightarrow> (string \<times> string) list \<Rightarrow> (string \<times> string) list" where
  "dict_store k v [] = [(k, v)]"
| "dict_store k v ((k', v') # ps) =
     (if k' = k then (k, v) # ps else (k', v') # dict_store k v ps)"

definition load_global_defaults :: "env \<Rightarrow> state \<Rightarrow> run \<Rightarrow> state \<times> run" where
  "load_global_defaults e s r =
     (if global_defaults s = [] then
        (case check_output e [''sysctl'', ''-n'', ''net.core.rmem_max''] r of
           (Inl ex, r1) \<Rightarrow>
             (s, show_dialog (Warning ''Warning''
                   (''Failed to load global defaults:\<newline>'' @ ex)) r1)
         | (Inr rmem, r1) \<Rightarrow>
        (case check_output e [''sysctl'', ''-n'', ''net.core.wmem_max''] r1 of
           (Inl ex, r2) \<Rightarrow>
             (s, show_dialog (Warning ''Warning''
                   (''Failed to load global defaults:\<newline>'' @ ex)) r2)
         | (Inr wmem, r2) \<Rightarrow>
        (case check_output e [''sysctl'', ''-n'', ''net.ipv4.tcp_congestion_control''] r2 of
           (Inl ex, r3) \<Rightarrow>
             (s, show_dialog (Warning ''Warning''
                   (''Failed to load global defaults:\<newline>'' @ ex)) r3)
         | (Inr tcp_cc, r3) \<Rightarrow>
             (s\<lparr>global_defaults :=
                   dict_store ''net.ipv4.tcp_congestion_control'' (strip tcp_cc)
                     (dict_store ''net.core.wmem_max'' (strip wmem)
                       (dict_store ''net.core.rmem_max'' (strip rmem) (global_defaults s)))\<rparr>,
              r3))))
      else (s, r))"

section \<open>reset_to_defaults\<close>

text \<open>\<^verbatim>\<open>str(d.get(k))\<close> inside an f-string: the text \<^verbatim>\<open>None\<close> for a missing key.\<close>

definition str_get :: "(string \<times> string) list \<Rightarrow> string \<Rightarrow> string" where
  "str_get d k = (case map_of d k of None \<Rightarrow> ''None'' | Some v \<Rightarrow> v)"

definition on_off :: "bool option \<Rightarrow> string" where
  "on_off v = (if truthy v then ''on'' else ''off'')"

definition reset_tso :: "env \<Rightarrow> snapshot \<Rightarrow> string \<Rightarrow> run \<Rightarrow> run" where
  "reset_tso e defaults interface r =
     (let tso_default = on_off (dict_get defaults ''tso'' (Some True)) in
      case check_call e [''ethtool'', ''-K'', interface, ''tso'', tso_default] r of
        (None, r') \<Rightarrow>
          print (''Successfully reset TSO to default ('' @ tso_default @ '') on ''
                 @ interface @ ''.'') r'
      | (Some ex, r') \<Rightarrow> fail (''Failed to reset TSO for '' @ interface @ '': '' @ ex) r')"

definition reset_gso :: "env \<Rightarrow> snapshot \<Rightarrow> string \<Rightarrow> run \<Rightarrow> run" where
  "reset_gso e defaults interface r =
     (let gso_default = on_off (dict_get defaults ''gso'' (Some True)) in
      case check_call e [''ethtool'', ''-K'', interface, ''gso'', gso_default] r of
        (None, r') \<Rightarrow>
          print (''Successfully reset GSO to default ('' @ gso_default @ '') on ''
                 @ interface @ ''.'') r'
      | (Some ex, r') \<Rightarrow> fail (''Failed to reset GSO for '' @ interface @ '': '' @ ex) r')"

definition reset_gro :: "env \<Rightarrow> snapshot \<Rightarrow> string \<Rightarrow> run \<Rightarrow> run" where
  "reset_gro e defaults interface r =
     (let gro_default = on_off (dict_get defaults ''gro'' (Some True)) in
      case check_call e [''ethtool'', ''-K'', interface, ''gro'', gro_default] r of
        (None, r') \<Rightarrow>
          print (''Successfully reset GRO to default ('' @ gro_default @ '') on ''
                 @ interface @ ''.'') r'
      | (Some ex, r') \<Rightarrow> fail (''Failed to reset GRO for '' @ interface @ '': '' @ ex) r')"

definition reset_power_save :: "env \<Rightarrow> snapshot \<Rightarrow> string \<Rightarrow> run \<Rightarrow> run" where
  "reset_power_save e defaults interface r =
     (if dict_get defaults ''power_save'' None \<noteq> None then
        (let ps_default = on_off (dict_get defaults ''power_save'' None) in
         case check_call e [''iw'', ''dev'', interface, ''set'', ''power_save'', ps_default] r of
           (None, r') \<Rightarrow>
             print (''Successfully reset power saving to default ('' @ ps_default @ '') on ''
                    @ interface @ ''.'') r'
         | (Some ex, r') \<Rightarrow>
             fail (''Failed to reset power saving for '' @ interface @ '': '' @ ex) r')
      else r)"

definition reset_buffers :: "env \<Rightarrow> state \<Rightarrow> run \<Rightarrow> run" where
  "reset_buffers e s r =
     (case check_call e [''sysctl'', ''-w'',
            ''net.core.rmem_max='' @ str_get (global_defaults s) ''net.core.rmem_max''] r of
        (Some ex, r') \<Rightarrow> fail (''Failed to reset buffer sizes: '' @ ex) r'
      | (None, r') \<Rightarrow>
          (case check_call e [''sysctl'', ''-w'',
                 ''net.core.wmem_max='' @ str_get (global_defaults s) ''net.core.wmem_max''] r' of
             (Some ex, r'') \<Rightarrow> fail (''Failed to reset buffer sizes: '' @ ex) r''
           | (None, r'') \<Rightarrow> print ''Successfully reset buffer sizes to defaults.'' r''))"

definition reset_tcp_cc :: "env \<Rightarrow> state \<Rightarrow> run \<Rightarrow> run" where
  "reset_tcp_cc e s r =
     (case check_call e [''sysctl'', ''-w'',
            ''net.ipv4.tcp_congestion_control=''
            @ str_get (global_defaults s) ''net.ipv4.tcp_congestion_control''] r of
        (None, r') \<Rightarrow> print ''Successfully reset TCP congestion control to default.'' r'
      | (Some ex, r') \<Rightarrow> fail (''Failed to reset TCP congestion control: '' @ ex) r')"

text \<open>Lines 513 to 556.\<close>

definition reset_steps :: "env \<Rightarrow> state \<Rightarrow> string \<Rightarrow> run" where
  "reset_steps e s interface =
     (let defaults = (case interface_defaults s interface of None \<Rightarrow> Map.empty | Some d \<Rightarrow> d) in
      reset_tcp_cc e s
        (reset_buffers e s
          (reset_power_save e defaults interface
            (reset_gro e defaults interface
              (reset_gso e defaults interface
                (reset_tso e defaults interface no_run))))))"

definition reset_to_defaults :: "env \<Rightarrow> state \<Rightarrow> state \<times> run" where
  "reset_to_defaults e s =
     (case current_interface s of
        None \<Rightarrow> (s, show_dialog (Warning ''Error'' ''No network interface selected.'') no_run)
      | Some interface \<Rightarrow>
          if interface = [] then
            (s, show_dialog (Warning ''Error'' ''No network interface selected.'') no_run)
          else
            (let r = reset_steps e s interface in
             if error_messages r \<noteq> [] then
               (s, print_all (error_messages r)
                     (print ''Errors occurred during resetting to defaults:''
                       (show_dialog
                         (Warning ''Errors Occurred'' (join ''\<newline>'' (error_messages r))) r)))
             else
               load_interface_settings e interface s
                 (print ''All settings reset to defaults successfully.''
                   (show_dialog
                     (Information ''Success'' ''Settings reset to defaults successfully.'') r))))"

section \<open>The life of the window\<close>

text \<open>
  \<^verbatim>\<open>__init__\<close>: the fields of lines 183 to 186 and the widgets as \<^verbatim>\<open>initUI\<close> leaves
  them (check boxes unchecked and enabled, slider at 4, first item of the combo box).
\<close>

definition initial_state :: state where
  "initial_state =
     \<lparr>global_defaults = [], interface_defaults = Map.empty, current_interface = None,
      available_interfaces = [], tsoCheckBox = False, gsoCheckBox = False,
      groCheckBox = False, powerSaveCheckBox_enabled = True, powerSaveCheckBox = False,
      bufferSlider = 4, tcpComboBox = ''cubic''\<rparr>"

text \<open>
  What the user and the window system can do to the window. The interfaces come from
  \<^verbatim>\<open>os.listdir\<close>, read once by \<^verbatim>\<open>load_interfaces\<close>; \<open>Start interfaces\<close> is the rest of
  \<^verbatim>\<open>__init__\<close> (lines 189 to 195) with the listing it got, loopback still in it, and
  the empty listing when \<^verbatim>\<open>os.listdir\<close> failed. When \<^verbatim>\<open>load_interfaces\<close> fills the
  combo box, Qt makes the first item current and emits \<^verbatim>\<open>currentTextChanged\<close>: that
  call of \<^verbatim>\<open>on_interface_change\<close> is a \<open>Select_interface\<close> event before \<open>Start\<close>. A
  disabled check box takes no click, the slider bounds what it is given, and the combo
  box has two items.
\<close>

datatype event =
    Start "string list"
  | Select_interface string
  | Set_tso bool
  | Set_gso bool
  | Set_gro bool
  | Set_power_save bool
  | Move_slider int
  | Choose_tcp string
  | Click_apply
  | Click_reset

definition start :: "env \<Rightarrow> string list \<Rightarrow> state \<Rightarrow> state \<times> run" where
  "start e interfaces s =
     (let s1 = s\<lparr>available_interfaces := filter (\<lambda>iface. iface \<noteq> ''lo'') interfaces\<rparr> in
      case (if available_interfaces s1 \<noteq> []
            then load_interface_settings e (hd (available_interfaces s1)) s1 no_run
            else (s1, no_run)) of
        (s2, r2) \<Rightarrow> load_global_defaults e s2 r2)"

fun step :: "env \<Rightarrow> event \<Rightarrow> state \<Rightarrow> state \<times> run" where
  "step e (Start interfaces) s = start e interfaces s"
| "step e (Select_interface interface) s = on_interface_change e interface s no_run"
| "step e (Set_tso b) s = (s\<lparr>tsoCheckBox := b\<rparr>, no_run)"
| "step e (Set_gso b) s = (s\<lparr>gsoCheckBox := b\<rparr>, no_run)"
| "step e (Set_gro b) s = (s\<lparr>groCheckBox := b\<rparr>, no_run)"
| "step e (Set_power_save b) s =
     (if powerSaveCheckBox_enabled s then (s\<lparr>powerSaveCheckBox := b\<rparr>, no_run) else (s, no_run))"
| "step e (Move_slider v) s = (bufferSlider_setValue v s, no_run)"
| "step e (Choose_tcp t) s =
     (if t \<in> set tcp_items then (s\<lparr>tcpComboBox := t\<rparr>, no_run) else (s, no_run))"
| "step e Click_apply s = (s, apply_settings e s)"
| "step e Click_reset s = reset_to_defaults e s"

text \<open>
  A session: each event meets the system in the condition \<open>env\<close> it is in at that
  moment. The result is the final state and every call attempted, in order.
\<close>

fun session :: "(env \<times> event) list \<Rightarrow> state \<Rightarrow> state \<times> call list" where
  "session [] s = (s, [])"
| "session ((e, ev) # rest) s =
     (case step e ev s of (s1, r) \<Rightarrow>
      case session rest s1 of (s2, calls) \<Rightarrow> (s2, trace r @ calls))"

section \<open>Vocabulary of the statements\<close>

text \<open>
  The calls by their purpose, and the outcome an environment gives an attempt: \<open>None\<close>
  when it succeeds, the text of the exception when it fails.
\<close>

definition offload_call :: "string \<Rightarrow> string \<Rightarrow> string \<Rightarrow> call" where
  "offload_call interface flag v = Check_call [''ethtool'', ''-K'', interface, flag, v]"

definition power_save_call :: "string \<Rightarrow> string \<Rightarrow> call" where
  "power_save_call interface v = Check_call [''iw'', ''dev'', interface, ''set'', ''power_save'', v]"

definition fallback_call :: call where
  "fallback_call = Write_file nm_conf_path nm_conf_text"

definition sysctl_call :: "string \<Rightarrow> string \<Rightarrow> call" where
  "sysctl_call key v = Check_call [''sysctl'', ''-w'', key @ ''='' @ v]"

definition off_if :: "bool \<Rightarrow> string" where
  "off_if disable = (if disable then ''off'' else ''on'')"

fun outcome :: "env \<Rightarrow> call \<Rightarrow> string option" where
  "outcome e (Check_call argv) = call_result e argv"
| "outcome e (Write_file path content) = file_result e path content"
| "outcome e (Check_output argv) =
     (case output_result e argv of Inl ex \<Rightarrow> Some ex | Inr out \<Rightarrow> None)"

definition report :: "string \<Rightarrow> string option \<Rightarrow> string list" where
  "report prefix result = (case result of None \<Rightarrow> [] | Some ex \<Rightarrow> [prefix @ ex])"

text \<open>The writes \<^verbatim>\<open>apply_settings\<close> is asked for by the widgets of a state.\<close>

definition tso_call :: "state \<Rightarrow> string \<Rightarrow> call" where
  "tso_call s interface = offload_call interface ''tso'' (off_if (tsoCheckBox s))"

definition gso_call :: "state \<Rightarrow> string \<Rightarrow> call" where
  "gso_call s interface = offload_call interface ''gso'' (off_if (gsoCheckBox s))"

definition gro_call :: "state \<Rightarrow> string \<Rightarrow> call" where
  "gro_call s interface = offload_call interface ''gro'' (off_if (groCheckBox s))"

definition iw_call :: "state \<Rightarrow> string \<Rightarrow> call" where
  "iw_call s interface = power_save_call interface (off_if (powerSaveCheckBox s))"

definition rmem_call :: "state \<Rightarrow> call" where
  "rmem_call s = sysctl_call ''net.core.rmem_max'' (str_int (buffer_value (bufferSlider s)))"

definition wmem_call :: "state \<Rightarrow> call" where
  "wmem_call s = sysctl_call ''net.core.wmem_max'' (str_int (buffer_value (bufferSlider s)))"

definition tcp_call :: "state \<Rightarrow> call" where
  "tcp_call s = sysctl_call ''net.ipv4.tcp_congestion_control'' (tcpComboBox s)"

text \<open>Messages and calls by what they are about.\<close>

definition starts_with :: "string \<Rightarrow> string \<Rightarrow> bool" where
  "starts_with p m = (take (length p) m = p)"

definition power_save_failure :: "string \<Rightarrow> bool" where
  "power_save_failure m =
     (starts_with ''Failed to disable power saving for '' m
      \<or> starts_with ''Failed to set power saving for '' m)"

definition power_save_success :: "string \<Rightarrow> bool" where
  "power_save_success m =
     (starts_with ''Successfully disabled power saving via '' m
      \<or> starts_with ''Successfully enabled power saving via '' m)"

definition buffers_failure :: "string \<Rightarrow> bool" where
  "buffers_failure m = starts_with ''Failed to set buffer sizes: '' m"

definition writes_key :: "string \<Rightarrow> call \<Rightarrow> bool" where
  "writes_key key c =
     (case c of
        Check_call argv \<Rightarrow>
          length argv = 3 \<and> take 2 argv = [''sysctl'', ''-w'']
          \<and> starts_with (key @ ''='') (last argv)
      | Check_output argv \<Rightarrow> False
      | Write_file path content \<Rightarrow> False)"

text \<open>
  What the two global reads of \<^verbatim>\<open>load_interface_settings\<close> yield for the widgets: a
  slider value from \<^verbatim>\<open>net.core.rmem_max\<close> and one of the offered algorithms, or
  nothing when the read fails or its text is of no use.
\<close>

definition tier_read :: "env \<Rightarrow> int option" where
  "tier_read e =
     (case output_result e [''sysctl'', ''-n'', ''net.core.rmem_max''] of
        Inl ex \<Rightarrow> None
      | Inr out \<Rightarrow> (case slider_value_of (strip out) of Inl ex \<Rightarrow> None | Inr v \<Rightarrow> Some v))"

definition tcp_read :: "env \<Rightarrow> string option" where
  "tcp_read e =
     (case output_result e [''sysctl'', ''-n'', ''net.ipv4.tcp_congestion_control''] of
        Inl ex \<Rightarrow> None
      | Inr out \<Rightarrow> if strip out \<in> set tcp_items then Some (strip out) else None)"

text \<open>The reads of \<^verbatim>\<open>load_interface_settings\<close>.\<close>

definition offload_read :: "string \<Rightarrow> call" where
  "offload_read interface = Check_output [''ethtool'', ''-k'', interface]"

definition power_save_read :: "string \<Rightarrow> call" where
  "power_save_read interface = Check_output [''iw'', ''dev'', interface, ''get'', ''power_save'']"

definition sysctl_read :: "string \<Rightarrow> call" where
  "sysctl_read key = Check_output [''sysctl'', ''-n'', key]"

definition reads_interface :: "string \<Rightarrow> call \<Rightarrow> bool" where
  "reads_interface interface c = (c = offload_read interface \<or> c = power_save_read interface)"

text \<open>The writes \<^verbatim>\<open>reset_to_defaults\<close> derives from the snapshot and the global defaults.\<close>

definition snapshot_of :: "state \<Rightarrow> string \<Rightarrow> snapshot" where
  "snapshot_of s interface =
     (case interface_defaults s interface of None \<Rightarrow> Map.empty | Some d \<Rightarrow> d)"

definition restore_offload_call :: "state \<Rightarrow> string \<Rightarrow> string \<Rightarrow> call" where
  "restore_offload_call s interface flag =
     offload_call interface flag (on_off (dict_get (snapshot_of s interface) flag (Some True)))"

definition restore_power_save_call :: "state \<Rightarrow> string \<Rightarrow> call" where
  "restore_power_save_call s interface =
     power_save_call interface (on_off (dict_get (snapshot_of s interface) ''power_save'' None))"

definition restore_sysctl_call :: "state \<Rightarrow> string \<Rightarrow> call" where
  "restore_sysctl_call s key = sysctl_call key (str_get (global_defaults s) key)"

definition power_save_applicable :: "state \<Rightarrow> string \<Rightarrow> bool" where
  "power_save_applicable s interface =
     (dict_get (snapshot_of s interface) ''power_save'' None \<noteq> None)"

definition interface_write :: "call \<Rightarrow> bool" where
  "interface_write c =
     (case c of
        Check_call argv \<Rightarrow> argv \<noteq> [] \<and> (hd argv = ''ethtool'' \<or> hd argv = ''iw'')
      | Check_output argv \<Rightarrow> False
      | Write_file path content \<Rightarrow> False)"

definition flag_label :: "string \<Rightarrow> string" where
  "flag_label flag = (if flag = ''tso'' then ''TSO'' else if flag = ''gso'' then ''GSO'' else ''GRO'')"

section \<open>Two machines for the examples\<close>

text \<open>
  A laptop whose wireless driver refuses \<^verbatim>\<open>iw ... set power_save\<close> and whose
  \<^verbatim>\<open>sysctl -w net.core.rmem_max\<close> is denied, everything else working; and the window
  after its interface \<^verbatim>\<open>wlan0\<close> was selected and the user asked for TSO off (GRO and
  power saving were off already) with the largest buffers and \<^verbatim>\<open>bbr\<close>.
\<close>

definition laptop :: env where
  "laptop =
     \<lparr>call_result = (\<lambda>argv.
        if hd argv = ''iw'' then Some ''Operation not supported''
        else if take 17 (last argv) = ''net.core.rmem_max'' then Some ''permission denied''
        else None),
      output_result = (\<lambda>argv.
        if argv = [''ethtool'', ''-k'', ''wlan0''] then
          Inr ''tcp-segmentation-offload: on\<newline>generic-segmentation-offload: on\<newline>generic-receive-offload: off\<newline>''
        else if argv = [''iw'', ''dev'', ''wlan0'', ''get'', ''power_save''] then
          Inr ''Power save: off''
        else if argv = [''sysctl'', ''-n'', ''net.core.rmem_max''] then Inr ''212992\<newline>''
        else if argv = [''sysctl'', ''-n'', ''net.core.wmem_max''] then Inr ''212992\<newline>''
        else if argv = [''sysctl'', ''-n'', ''net.ipv4.tcp_congestion_control''] then
          Inr ''cubic\<newline>''
        else Inl ''No such device''),
      file_result = (\<lambda>path content. None)\<rparr>"

definition wlan0_snapshot :: snapshot where
  "wlan0_snapshot =
     [''tso'' \<mapsto> Some True, ''gso'' \<mapsto> Some True, ''gro'' \<mapsto> Some False,
      ''power_save'' \<mapsto> Some False]"

definition wlan0_window :: state where
  "wlan0_window =
     \<lparr>global_defaults = [(''net.core.rmem_max'', ''212992''), (''net.core.wmem_max'', ''212992''),
                         (''net.ipv4.tcp_congestion_control'', ''cubic'')],
      interface_defaults = [''wlan0'' \<mapsto> wlan0_snapshot],
      current_interface = Some ''wlan0'',
      available_interfaces = [''wlan0''],
      tsoCheckBox = True, gsoCheckBox = False, groCheckBox = True,
      powerSaveCheckBox_enabled = True, powerSaveCheckBox = True,
      bufferSlider = 8, tcpComboBox = ''bbr''\<rparr>"

text \<open>
  A container in which neither tool can see the interface and the congestion-control
  parameter is not there to read; \<^verbatim>\<open>sysctl -w\<close> is refused.
\<close>

definition container :: env where
  "container =
     \<lparr>call_result = (\<lambda>argv. if hd argv = ''sysctl'' then Some ''Invalid argument'' else None),
      output_result = (\<lambda>argv.
        if argv = [''sysctl'', ''-n'', ''net.core.rmem_max''] then Inr ''212992\<newline>''
        else if argv = [''sysctl'', ''-n'', ''net.core.wmem_max''] then Inr ''212992\<newline>''
        else Inl ''No such file or directory''),
      file_result = (\<lambda>path content. None)\<rparr>"

text \<open>
  An evening at the laptop: the window opens, and the user checks \<^verbatim>\<open>Disable TSO\<close>,
  pulls the slider to the right end and picks \<^verbatim>\<open>bbr\<close>. It ends in \<open>wlan0_window\<close>.
\<close>

definition evening :: "(env \<times> event) list" where
  "evening =
     [(laptop, Start [''lo'', ''wlan0'']), (laptop, Set_tso True), (laptop, Move_slider 99),
      (laptop, Choose_tcp ''bbr'')]"

section \<open>What a run records\<close>

lemma print_fields [simp]:
  "trace (print l r) = trace r" "stdout (print l r) = stdout r @ [l]"
  "dialogs (print l r) = dialogs r" "error_messages (print l r) = error_messages r"
  by (simp_all add: print_def)

lemma fail_fields [simp]:
  "trace (fail m r) = trace r" "stdout (fail m r) = stdout r"
  "dialogs (fail m r) = dialogs r" "error_messages (fail m r) = error_messages r @ [m]"
  by (simp_all add: fail_def)

lemma show_dialog_fields [simp]:
  "trace (show_dialog d r) = trace r" "stdout (show_dialog d r) = stdout r"
  "dialogs (show_dialog d r) = dialogs r @ [d]"
  "error_messages (show_dialog d r) = error_messages r"
  by (simp_all add: show_dialog_def)

lemma no_run_fields [simp]:
  "trace no_run = []" "stdout no_run = []" "dialogs no_run = []" "error_messages no_run = []"
  by (simp_all add: no_run_def)

lemma print_all_fields [simp]:
  "trace (print_all ms r) = trace r" "stdout (print_all ms r) = stdout r @ ms"
  "dialogs (print_all ms r) = dialogs r" "error_messages (print_all ms r) = error_messages r"
  unfolding print_all_def by (induction ms arbitrary: r) simp_all

lemma report_simps [simp]:
  "report p None = []" "report p (Some ex) = [p @ ex]"
  by (simp_all add: report_def)

section \<open>What load_interface_settings does to the window\<close>

lemma slider_value_of_range:
  "slider_value_of t = Inr v \<Longrightarrow> 1 \<le> v \<and> v \<le> 8"
  by (auto simp: slider_value_of_def Let_def split: option.splits if_splits)

lemma load_buffer_size_state:
  "fst (load_buffer_size e s r) =
     s\<lparr>bufferSlider := (case tier_read e of None \<Rightarrow> bufferSlider s | Some v \<Rightarrow> v)\<rparr>"
  by (auto simp: load_buffer_size_def tier_read_def check_output_def bufferSlider_setValue_def
           dest: slider_value_of_range split: sum.splits)

lemma load_tcp_cc_state:
  "fst (load_tcp_cc e s r) =
     s\<lparr>tcpComboBox := (case tcp_read e of None \<Rightarrow> tcpComboBox s | Some t \<Rightarrow> t)\<rparr>"
  by (auto simp: load_tcp_cc_def tcp_read_def check_output_def split: sum.splits)

lemma ensure_defaults_state:
  "ensure_defaults e i s r = (d, s', r') \<Longrightarrow>
     interface_defaults s' i = Some d
     \<and> s' = s\<lparr>interface_defaults := (interface_defaults s)(i \<mapsto> d)\<rparr>
     \<and> (\<forall>d0. interface_defaults s i = Some d0 \<longrightarrow> d = d0 \<and> r' = r)"
  by (auto simp: ensure_defaults_def map_upd_triv split: option.splits prod.splits)

lemma load_interface_settings_state:
  "\<exists>d. fst (load_interface_settings e i s r) =
         (update_checkboxes d
           (s\<lparr>current_interface := Some i,
              interface_defaults := (interface_defaults s)(i \<mapsto> d)\<rparr>))
         \<lparr>bufferSlider := (case tier_read e of None \<Rightarrow> bufferSlider s | Some v \<Rightarrow> v),
          tcpComboBox := (case tcp_read e of None \<Rightarrow> tcpComboBox s | Some t \<Rightarrow> t)\<rparr>
       \<and> (\<forall>d0. interface_defaults s i = Some d0 \<longrightarrow> d = d0)"
proof -
  obtain d s1 r1 where ed: "ensure_defaults e i (s\<lparr>current_interface := Some i\<rparr>) r = (d, s1, r1)"
    by (cases "ensure_defaults e i (s\<lparr>current_interface := Some i\<rparr>) r") auto
  obtain s2 r2 where lb: "load_buffer_size e (update_checkboxes d s1) r1 = (s2, r2)"
    by (cases "load_buffer_size e (update_checkboxes d s1) r1") auto
  have s2: "s2 = (update_checkboxes d s1)
     \<lparr>bufferSlider := (case tier_read e of None \<Rightarrow> bufferSlider (update_checkboxes d s1)
                        | Some v \<Rightarrow> v)\<rparr>"
    using load_buffer_size_state[of e "update_checkboxes d s1" r1] lb by simp
  have fin: "fst (load_interface_settings e i s r) =
     s2\<lparr>tcpComboBox := (case tcp_read e of None \<Rightarrow> tcpComboBox s2 | Some t \<Rightarrow> t)\<rparr>"
    by (simp add: load_interface_settings_def ed lb load_tcp_cc_state)
  from ensure_defaults_state[OF ed]
  have s1: "s1 = s\<lparr>current_interface := Some i,
                   interface_defaults := (interface_defaults s)(i \<mapsto> d)\<rparr>"
    and same: "\<forall>d0. interface_defaults s i = Some d0 \<longrightarrow> d = d0"
    by simp_all
  have "fst (load_interface_settings e i s r) =
         (update_checkboxes d
           (s\<lparr>current_interface := Some i,
              interface_defaults := (interface_defaults s)(i \<mapsto> d)\<rparr>))
         \<lparr>bufferSlider := (case tier_read e of None \<Rightarrow> bufferSlider s | Some v \<Rightarrow> v),
          tcpComboBox := (case tcp_read e of None \<Rightarrow> tcpComboBox s | Some t \<Rightarrow> t)\<rparr>"
    unfolding fin s2 s1
    by (cases "tier_read e"; cases "tcp_read e") (simp_all add: update_checkboxes_def Let_def)
  with same show ?thesis by blast
qed

lemma load_interface_settings_widgets:
  "bufferSlider (fst (load_interface_settings e i s r)) =
     (case tier_read e of None \<Rightarrow> bufferSlider s | Some v \<Rightarrow> v)"
  "tcpComboBox (fst (load_interface_settings e i s r)) =
     (case tcp_read e of None \<Rightarrow> tcpComboBox s | Some t \<Rightarrow> t)"
  "current_interface (fst (load_interface_settings e i s r)) = Some i"
  "global_defaults (fst (load_interface_settings e i s r)) = global_defaults s"
  using load_interface_settings_state[of e i s r]
  by (auto simp: update_checkboxes_def Let_def)

lemma load_global_defaults_widgets:
  "bufferSlider (fst (load_global_defaults e s r)) = bufferSlider s"
  "tcpComboBox (fst (load_global_defaults e s r)) = tcpComboBox s"
  "current_interface (fst (load_global_defaults e s r)) = current_interface s"
  "interface_defaults (fst (load_global_defaults e s r)) = interface_defaults s"
  by (auto simp: load_global_defaults_def check_output_def split: sum.splits)


section \<open>The slider stays between 1 and 8\<close>






section \<open>What load_interface_settings asks the system\<close>

lemma check_output_run [simp]:
  "fst (check_output e argv r) = output_result e argv"
  "trace (snd (check_output e argv r)) = trace r @ [Check_output argv]"
  "dialogs (snd (check_output e argv r)) = dialogs r"
  by (simp_all add: check_output_def)

lemma detect_offloading_run:
  "trace (snd (detect_offloading e i d r)) = trace r @ [offload_read i]"
  "dialogs (snd (detect_offloading e i d r)) =
     dialogs r @
     (case outcome e (offload_read i) of
        None \<Rightarrow> []
      | Some ex \<Rightarrow>
          [Warning ''Warning'' (''Failed to get offloading settings for '' @ i @ '':\<newline>'' @ ex)])"
  by (auto simp: detect_offloading_def offload_read_def check_output_def split: sum.splits)

lemma detect_offloading_failed:
  assumes "output_result e [''ethtool'', ''-k'', i] = Inl ex"
  shows "fst (detect_offloading e i d r) =
           d(''tso'' \<mapsto> Some True, ''gso'' \<mapsto> Some True, ''gro'' \<mapsto> Some True)"
  using assms by (simp add: detect_offloading_def check_output_def)

lemma detect_power_save_run:
  "trace (snd (detect_power_save e i d r)) = trace r @ [power_save_read i]"
  "dialogs (snd (detect_power_save e i d r)) = dialogs r"
  "k \<noteq> ''power_save'' \<Longrightarrow> fst (detect_power_save e i d r) k = d k"
  by (auto simp: detect_power_save_def power_save_read_def check_output_def split: sum.splits)

lemma ensure_defaults_run:
  "trace (snd (snd (ensure_defaults e i s r))) =
     trace r @
     (case interface_defaults s i of
        None \<Rightarrow> [offload_read i, power_save_read i]
      | Some d \<Rightarrow> [])"
  "dialogs (snd (snd (ensure_defaults e i s r))) =
     dialogs r @
     (case interface_defaults s i of
        None \<Rightarrow>
          (case outcome e (offload_read i) of
             None \<Rightarrow> []
           | Some ex \<Rightarrow>
               [Warning ''Warning''
                 (''Failed to get offloading settings for '' @ i @ '':\<newline>'' @ ex)])
      | Some d \<Rightarrow> [])"
  by (simp_all add: ensure_defaults_def case_prod_unfold detect_power_save_run
        detect_offloading_run split: option.splits)

lemma load_buffer_size_run:
  "trace (snd (load_buffer_size e s r)) = trace r @ [sysctl_read ''net.core.rmem_max'']"
  "set (dialogs r) \<subseteq> set (dialogs (snd (load_buffer_size e s r)))"
  by (auto simp: load_buffer_size_def sysctl_read_def check_output_def split: sum.splits)

lemma load_tcp_cc_run:
  "trace (snd (load_tcp_cc e s r)) =
     trace r @ [sysctl_read ''net.ipv4.tcp_congestion_control'']"
  "set (dialogs r) \<subseteq> set (dialogs (snd (load_tcp_cc e s r)))"
  by (auto simp: load_tcp_cc_def sysctl_read_def check_output_def split: sum.splits)

lemma load_interface_settings_trace:
  "trace (snd (load_interface_settings e i s r)) =
     trace r @
     (case interface_defaults s i of
        None \<Rightarrow> [offload_read i, power_save_read i]
      | Some d \<Rightarrow> []) @
     [sysctl_read ''net.core.rmem_max'', sysctl_read ''net.ipv4.tcp_congestion_control'']"
  by (simp add: load_interface_settings_def case_prod_unfold load_tcp_cc_run
        load_buffer_size_run ensure_defaults_run)

lemma load_interface_settings_dialogs:
  assumes "interface_defaults s i = None" and "outcome e (offload_read i) = Some ex"
  shows "Warning ''Warning'' (''Failed to get offloading settings for '' @ i @ '':\<newline>'' @ ex)
           \<in> set (dialogs (snd (load_interface_settings e i s r)))"
proof -
  let ?s0 = "s\<lparr>current_interface := Some i\<rparr>"
  let ?ed = "ensure_defaults e i ?s0 r"
  let ?lb = "load_buffer_size e (update_checkboxes (fst ?ed) (fst (snd ?ed))) (snd (snd ?ed))"
  have "Warning ''Warning'' (''Failed to get offloading settings for '' @ i @ '':\<newline>'' @ ex)
          \<in> set (dialogs (snd (snd ?ed)))"
    using assms by (simp add: ensure_defaults_run)
  then have "Warning ''Warning'' (''Failed to get offloading settings for '' @ i @ '':\<newline>'' @ ex)
          \<in> set (dialogs (snd ?lb))"
    using load_buffer_size_run(2) by blast
  then have "Warning ''Warning'' (''Failed to get offloading settings for '' @ i @ '':\<newline>'' @ ex)
          \<in> set (dialogs (snd (load_tcp_cc e (fst ?lb) (snd ?lb))))"
    using load_tcp_cc_run(2) by blast
  then show ?thesis
    by (simp add: load_interface_settings_def case_prod_unfold)
qed

lemma ensure_defaults_failed:
  assumes "interface_defaults s i = None"
    and "output_result e [''ethtool'', ''-k'', i] = Inl ex"
  shows "fst (ensure_defaults e i s r) ''tso'' = Some (Some True)"
    and "fst (ensure_defaults e i s r) ''gso'' = Some (Some True)"
    and "fst (ensure_defaults e i s r) ''gro'' = Some (Some True)"
  using assms
  by (simp_all add: ensure_defaults_def case_prod_unfold detect_power_save_run
        detect_offloading_failed)

lemma load_interface_settings_snapshot:
  "fst (load_interface_settings e i s r) =
     (update_checkboxes (fst (ensure_defaults e i (s\<lparr>current_interface := Some i\<rparr>) r))
       (s\<lparr>current_interface := Some i,
          interface_defaults := (interface_defaults s)
            (i \<mapsto> fst (ensure_defaults e i (s\<lparr>current_interface := Some i\<rparr>) r))\<rparr>))
     \<lparr>bufferSlider := (case tier_read e of None \<Rightarrow> bufferSlider s | Some v \<Rightarrow> v),
      tcpComboBox := (case tcp_read e of None \<Rightarrow> tcpComboBox s | Some t \<Rightarrow> t)\<rparr>"
proof -
  obtain d s1 r1 where ed: "ensure_defaults e i (s\<lparr>current_interface := Some i\<rparr>) r = (d, s1, r1)"
    by (cases "ensure_defaults e i (s\<lparr>current_interface := Some i\<rparr>) r") auto
  then have d: "fst (ensure_defaults e i (s\<lparr>current_interface := Some i\<rparr>) r) = d"
    by simp
  obtain s2 r2 where lb: "load_buffer_size e (update_checkboxes d s1) r1 = (s2, r2)"
    by (cases "load_buffer_size e (update_checkboxes d s1) r1") auto
  have s2: "s2 = (update_checkboxes d s1)
     \<lparr>bufferSlider := (case tier_read e of None \<Rightarrow> bufferSlider (update_checkboxes d s1)
                        | Some v \<Rightarrow> v)\<rparr>"
    using load_buffer_size_state[of e "update_checkboxes d s1" r1] lb by simp
  have fin: "fst (load_interface_settings e i s r) =
     s2\<lparr>tcpComboBox := (case tcp_read e of None \<Rightarrow> tcpComboBox s2 | Some t \<Rightarrow> t)\<rparr>"
    by (simp add: load_interface_settings_def ed lb load_tcp_cc_state)
  from ensure_defaults_state[OF ed]
  have s1: "s1 = s\<lparr>current_interface := Some i,
                   interface_defaults := (interface_defaults s)(i \<mapsto> d)\<rparr>"
    by simp
  show ?thesis
    unfolding d unfolding fin s2 s1
    by (cases "tier_read e"; cases "tcp_read e") (simp_all add: update_checkboxes_def Let_def)
qed

section \<open>The reads of the laptop\<close>

text \<open>
  Far from the limits of a float the slider value is the bounded, rounded quotient; the
  kernel parameters of a real machine are that small.
\<close>

lemma float_range_far: "\<bar>real_of_int n\<bar> < 2 ^ 62 \<Longrightarrow> \<bar>real_of_int n / 1048576\<bar> < 2 ^ 1023 - 2 ^ 969"
proof -
  assume small: "\<bar>real_of_int n\<bar> < 2 ^ 62"
  have a: "(2::real) ^ 62 \<le> 2 ^ 969"
    by (rule power_increasing) simp_all
  have "(2::real) ^ 1023 = 2 ^ 969 * 2 ^ 54"
    by (simp flip: power_add)
  moreover have "(2::real) \<le> 2 ^ 54"
    using power_increasing[of 1 54 "2::real"] by simp
  ultimately have b: "(2::real) ^ 969 \<le> 2 ^ 1023 - 2 ^ 969"
    by (simp add: algebra_simps)
  have "\<bar>real_of_int n / 1048576\<bar> \<le> \<bar>real_of_int n\<bar>"
    by (simp add: field_simps)
  with small a b show ?thesis
    by linarith
qed

lemma slider_value_of_small:
  assumes "py_int t = Some n" and "\<bar>n\<bar> < 2 ^ 62"
  shows "slider_value_of t = Inr (max 1 (min 8 (py_round (real_of_int n / 1048576 / 0.5))))"
proof -
  have "\<bar>real_of_int n\<bar> < 2 ^ 62"
    using assms(2) by (metis of_int_abs of_int_less_numeral_power_cancel_iff)
  from float_range_far[OF this]
  have "\<not> 2 ^ 1023 - 2 ^ 969 \<le> \<bar>real_of_int n / 1048576\<bar>"
    and "\<not> 2 ^ 1024 - 2 ^ 970 \<le> \<bar>real_of_int n / 1048576\<bar>"
    by (simp_all add: not_le)
  then show ?thesis
    using assms(1) by (simp add: slider_value_of_def Let_def)
qed

lemma laptop_strips:
  "strip ''212992\<newline>'' = ''212992''" "strip ''cubic\<newline>'' = ''cubic''"
  by code_simp+

lemma laptop_rmem_max: "py_int ''212992'' = Some 212992"
  by code_simp

lemma py_round_13_32: "py_round (13 / 32) = 0"
  by code_simp

lemma laptop_tier_read: "tier_read laptop = Some 1"
  using slider_value_of_small[OF laptop_rmem_max]
  by (simp add: tier_read_def laptop_def laptop_strips py_round_13_32)

lemma laptop_tcp_read: "tcp_read laptop = Some ''cubic''"
  by (simp add: tcp_read_def laptop_def laptop_strips tcp_items_def)

text \<open>The evening session ends in the window of the examples.\<close>

lemma laptop_lines:
  "splitlines ''tcp-segmentation-offload: on\<newline>generic-segmentation-offload: on\<newline>generic-receive-offload: off\<newline>''
     = [''tcp-segmentation-offload: on'', ''generic-segmentation-offload: on'',
        ''generic-receive-offload: off'']"
  by code_simp

lemma laptop_flags:
  "parse_offload_line d ''tcp-segmentation-offload: on'' = d(''tso'' \<mapsto> Some True)"
  "parse_offload_line d ''generic-segmentation-offload: on'' = d(''gso'' \<mapsto> Some True)"
  "parse_offload_line d ''generic-receive-offload: off'' = d(''gro'' \<mapsto> Some False)"
proof -
  have a: "strip ''tcp-segmentation-offload: on'' = ''tcp-segmentation-offload: on''"
    "strip ''generic-segmentation-offload: on'' = ''generic-segmentation-offload: on''"
    "strip ''generic-receive-offload: off'' = ''generic-receive-offload: off''"
    by code_simp+
  have b: "contains ''tcp-segmentation-offload:'' ''tcp-segmentation-offload: on''"
    "\<not> contains ''tcp-segmentation-offload:'' ''generic-segmentation-offload: on''"
    "\<not> contains ''tso:'' ''generic-segmentation-offload: on''"
    "contains ''generic-segmentation-offload:'' ''generic-segmentation-offload: on''"
    "\<not> contains ''tcp-segmentation-offload:'' ''generic-receive-offload: off''"
    "\<not> contains ''tso:'' ''generic-receive-offload: off''"
    "\<not> contains ''generic-segmentation-offload:'' ''generic-receive-offload: off''"
    "\<not> contains ''gso:'' ''generic-receive-offload: off''"
    "contains ''generic-receive-offload:'' ''generic-receive-offload: off''"
    by code_simp+
  have c: "lower (strip (after_last_colon ''tcp-segmentation-offload: on'')) = ''on''"
    "lower (strip (after_last_colon ''generic-segmentation-offload: on'')) = ''on''"
    "lower (strip (after_last_colon ''generic-receive-offload: off'')) = ''off''"
    by code_simp+
  show "parse_offload_line d ''tcp-segmentation-offload: on'' = d(''tso'' \<mapsto> Some True)"
    "parse_offload_line d ''generic-segmentation-offload: on'' = d(''gso'' \<mapsto> Some True)"
    "parse_offload_line d ''generic-receive-offload: off'' = d(''gro'' \<mapsto> Some False)"
    by (simp_all add: parse_offload_line_def Let_def a b c)
qed

lemma laptop_power_save: "contains ''off'' (lower (strip ''Power save: off''))"
  by code_simp

lemma laptop_snapshot:
  "interface_defaults s ''wlan0'' = None \<Longrightarrow>
     fst (ensure_defaults laptop ''wlan0'' s r) = wlan0_snapshot"
  by (simp add: ensure_defaults_def detect_offloading_def detect_power_save_def
        check_output_def laptop_def laptop_lines laptop_flags laptop_power_save wlan0_snapshot_def)

lemma laptop_global_defaults:
  "global_defaults s = [] \<Longrightarrow>
     fst (load_global_defaults laptop s r) =
       s\<lparr>global_defaults :=
           [(''net.core.rmem_max'', ''212992''), (''net.core.wmem_max'', ''212992''),
            (''net.ipv4.tcp_congestion_control'', ''cubic'')]\<rparr>"
  by (simp add: load_global_defaults_def check_output_def laptop_def laptop_strips)

lemma evening_window:
  "fst (session evening initial_state) = wlan0_window"
proof -
  let ?s1 = "initial_state\<lparr>available_interfaces := [''wlan0'']\<rparr>"
  have none: "interface_defaults (?s1\<lparr>current_interface := Some ''wlan0''\<rparr>) ''wlan0'' = None"
    by (simp add: initial_state_def)
  have loaded: "fst (load_interface_settings laptop ''wlan0'' ?s1 no_run) =
      ?s1\<lparr>current_interface := Some ''wlan0'',
           interface_defaults := [''wlan0'' \<mapsto> wlan0_snapshot],
           tsoCheckBox := False, gsoCheckBox := False, groCheckBox := True,
           powerSaveCheckBox_enabled := True, powerSaveCheckBox := True,
           bufferSlider := 1, tcpComboBox := ''cubic''\<rparr>"
    by (subst load_interface_settings_snapshot)
       (simp add: laptop_snapshot[OF none] laptop_tier_read laptop_tcp_read
          update_checkboxes_def Let_def, simp add: wlan0_snapshot_def dict_get_def truthy_def
          initial_state_def)
  have started: "fst (start laptop [''lo'', ''wlan0''] initial_state) =
      ?s1\<lparr>current_interface := Some ''wlan0'',
           interface_defaults := [''wlan0'' \<mapsto> wlan0_snapshot],
           tsoCheckBox := False, gsoCheckBox := False, groCheckBox := True,
           powerSaveCheckBox_enabled := True, powerSaveCheckBox := True,
           bufferSlider := 1, tcpComboBox := ''cubic'',
           global_defaults :=
             [(''net.core.rmem_max'', ''212992''), (''net.core.wmem_max'', ''212992''),
              (''net.ipv4.tcp_congestion_control'', ''cubic'')]\<rparr>"
    by (simp add: start_def Let_def case_prod_unfold loaded)
       (simp add: laptop_global_defaults initial_state_def)
  show ?thesis
    by (simp add: evening_def case_prod_unfold started bufferSlider_setValue_def tcp_items_def)
       (simp add: initial_state_def wlan0_window_def)
qed

section \<open>The sections of apply_settings, one by one\<close>

text \<open>
  Each section appends to the trace and to \<^verbatim>\<open>error_messages\<close>, and what it appends
  depends on the widgets and on the outcome of its own calls only.
\<close>

lemma apply_tso_run:
  "trace (apply_tso e s i r) = trace r @ [tso_call s i]"
  "error_messages (apply_tso e s i r) =
     error_messages r @ report (''Failed to set TSO for '' @ i @ '': '') (outcome e (tso_call s i))"
  by (auto simp: apply_tso_def tso_call_def offload_call_def off_if_def check_call_def
           split: option.splits)

lemma apply_gso_run:
  "trace (apply_gso e s i r) = trace r @ [gso_call s i]"
  "error_messages (apply_gso e s i r) =
     error_messages r @ report (''Failed to set GSO for '' @ i @ '': '') (outcome e (gso_call s i))"
  by (auto simp: apply_gso_def gso_call_def offload_call_def off_if_def check_call_def
           split: option.splits)

lemma apply_gro_run:
  "trace (apply_gro e s i r) = trace r @ [gro_call s i]"
  "error_messages (apply_gro e s i r) =
     error_messages r @ report (''Failed to set GRO for '' @ i @ '': '') (outcome e (gro_call s i))"
  by (auto simp: apply_gro_def gro_call_def offload_call_def off_if_def check_call_def
           split: option.splits)

lemma apply_power_save_trace:
  "trace (apply_power_save e s i r) =
     trace r @
     (if powerSaveCheckBox_enabled s then
        iw_call s i #
        (if powerSaveCheckBox s \<and> outcome e (iw_call s i) \<noteq> None then [fallback_call] else [])
      else [])"
  by (auto simp: apply_power_save_def apply_power_save_try_def iw_call_def power_save_call_def
                 off_if_def fallback_call_def check_call_def write_file_def
           split: option.splits)

lemma apply_power_save_errors:
  "error_messages (apply_power_save e s i r) =
     error_messages r @
     (if powerSaveCheckBox_enabled s then
        (case outcome e (iw_call s i) of
           None \<Rightarrow> []
         | Some ex \<Rightarrow>
             if powerSaveCheckBox s then
               report (''Failed to disable power saving for '' @ i
                       @ '' (fallback via NM config also failed): '') (outcome e fallback_call)
             else [''Failed to set power saving for '' @ i @ '': '' @ ex])
      else [])"
  by (auto simp: apply_power_save_def apply_power_save_try_def iw_call_def power_save_call_def
                 off_if_def fallback_call_def check_call_def write_file_def
           split: option.splits)

lemma apply_buffers_trace:
  "trace (apply_buffers e s i r) =
     trace r @ rmem_call s # (if outcome e (rmem_call s) = None then [wmem_call s] else [])"
  by (auto simp: apply_buffers_def rmem_call_def wmem_call_def sysctl_call_def check_call_def
           split: option.splits)

lemma apply_buffers_errors:
  "error_messages (apply_buffers e s i r) =
     error_messages r @
     (case outcome e (rmem_call s) of
        Some ex \<Rightarrow> [''Failed to set buffer sizes: '' @ ex]
      | None \<Rightarrow> report ''Failed to set buffer sizes: '' (outcome e (wmem_call s)))"
  by (auto simp: apply_buffers_def rmem_call_def wmem_call_def sysctl_call_def check_call_def
           split: option.splits)

lemma apply_tcp_cc_run:
  "trace (apply_tcp_cc e s i r) = trace r @ [tcp_call s]"
  "error_messages (apply_tcp_cc e s i r) =
     error_messages r @ report ''Failed to set TCP congestion control: '' (outcome e (tcp_call s))"
  by (auto simp: apply_tcp_cc_def tcp_call_def sysctl_call_def check_call_def
           split: option.splits)

lemma apply_settings_fields:
  assumes "current_interface s = Some i" and "i \<noteq> []"
  shows "trace (apply_settings e s) = trace (apply_steps e s i)"
    and "error_messages (apply_settings e s) = error_messages (apply_steps e s i)"
  using assms by (simp_all add: apply_settings_def Let_def)

lemma apply_settings_trace:
  assumes "current_interface s = Some i" and "i \<noteq> []"
  shows "trace (apply_settings e s) =
     [tso_call s i, gso_call s i, gro_call s i] @
     (if powerSaveCheckBox_enabled s then
        iw_call s i #
        (if powerSaveCheckBox s \<and> outcome e (iw_call s i) \<noteq> None then [fallback_call] else [])
      else []) @
     rmem_call s # (if outcome e (rmem_call s) = None then [wmem_call s] else []) @
     [tcp_call s]"
  unfolding apply_settings_fields(1)[OF assms] apply_steps_def
  by (simp only: apply_tcp_cc_run apply_buffers_trace apply_power_save_trace apply_gro_run
        apply_gso_run apply_tso_run no_run_fields) simp

lemma apply_settings_errors:
  assumes "current_interface s = Some i" and "i \<noteq> []"
  shows "error_messages (apply_settings e s) =
     report (''Failed to set TSO for '' @ i @ '': '') (outcome e (tso_call s i)) @
     report (''Failed to set GSO for '' @ i @ '': '') (outcome e (gso_call s i)) @
     report (''Failed to set GRO for '' @ i @ '': '') (outcome e (gro_call s i)) @
     (if powerSaveCheckBox_enabled s then
        (case outcome e (iw_call s i) of
           None \<Rightarrow> []
         | Some ex \<Rightarrow>
             if powerSaveCheckBox s then
               report (''Failed to disable power saving for '' @ i
                       @ '' (fallback via NM config also failed): '') (outcome e fallback_call)
             else [''Failed to set power saving for '' @ i @ '': '' @ ex])
      else []) @
     (case outcome e (rmem_call s) of
        Some ex \<Rightarrow> [''Failed to set buffer sizes: '' @ ex]
      | None \<Rightarrow> report ''Failed to set buffer sizes: '' (outcome e (wmem_call s))) @
     report ''Failed to set TCP congestion control: '' (outcome e (tcp_call s))"
  unfolding apply_settings_fields(2)[OF assms] apply_steps_def
  by (simp only: apply_tcp_cc_run apply_buffers_errors apply_power_save_errors apply_gro_run
        apply_gso_run apply_tso_run no_run_fields) simp

text \<open>The eight calls differ from each other, whatever the interface and the widgets.\<close>

lemma calls_differ:
  "tso_call s i \<noteq> gso_call s i" "tso_call s i \<noteq> gro_call s i" "gso_call s i \<noteq> gro_call s i"
  "tso_call s i \<noteq> iw_call s i" "gso_call s i \<noteq> iw_call s i" "gro_call s i \<noteq> iw_call s i"
  "tso_call s i \<noteq> fallback_call" "gso_call s i \<noteq> fallback_call" "gro_call s i \<noteq> fallback_call"
  "iw_call s i \<noteq> fallback_call" "rmem_call s \<noteq> fallback_call" "wmem_call s \<noteq> fallback_call"
  "tcp_call s \<noteq> fallback_call"
  "tso_call s i \<noteq> rmem_call s" "gso_call s i \<noteq> rmem_call s" "gro_call s i \<noteq> rmem_call s"
  "iw_call s i \<noteq> rmem_call s"
  "tso_call s i \<noteq> wmem_call s" "gso_call s i \<noteq> wmem_call s" "gro_call s i \<noteq> wmem_call s"
  "iw_call s i \<noteq> wmem_call s"
  "tso_call s i \<noteq> tcp_call s" "gso_call s i \<noteq> tcp_call s" "gro_call s i \<noteq> tcp_call s"
  "iw_call s i \<noteq> tcp_call s"
  "rmem_call s \<noteq> wmem_call s" "rmem_call s \<noteq> tcp_call s" "wmem_call s \<noteq> tcp_call s"
  by (simp_all add: tso_call_def gso_call_def gro_call_def iw_call_def rmem_call_def
        wmem_call_def tcp_call_def fallback_call_def offload_call_def power_save_call_def
        sysctl_call_def)

section \<open>Partial failure in apply_settings\<close>

text \<open>
  C1. With an interface selected, \<^verbatim>\<open>apply_settings\<close> runs its sections in the order
  TSO, GSO, GRO, power saving, buffers, congestion control, whatever fails: the first
  call of every section is attempted under every environment (the power-saving one when
  its check box is enabled). \<^verbatim>\<open>error_messages\<close> is the concatenation of what each
  section reports of its own calls. No call is attempted twice and none but the eight
  writes the widgets ask for: nothing undoes a write.
\<close>

theorem apply_sections_independent:
  assumes "current_interface s = Some i" and "i \<noteq> []"
  shows
    "filter (\<lambda>c. c \<in> set [tso_call s i, gso_call s i, gro_call s i, iw_call s i,
                            rmem_call s, tcp_call s]) (trace (apply_settings e s)) =
       [tso_call s i, gso_call s i, gro_call s i] @
       (if powerSaveCheckBox_enabled s then [iw_call s i] else []) @
       [rmem_call s, tcp_call s]
     \<and> error_messages (apply_settings e s) =
       report (''Failed to set TSO for '' @ i @ '': '') (outcome e (tso_call s i)) @
       report (''Failed to set GSO for '' @ i @ '': '') (outcome e (gso_call s i)) @
       report (''Failed to set GRO for '' @ i @ '': '') (outcome e (gro_call s i)) @
       (if powerSaveCheckBox_enabled s then
          (case outcome e (iw_call s i) of
             None \<Rightarrow> []
           | Some ex \<Rightarrow>
               if powerSaveCheckBox s then
                 report (''Failed to disable power saving for '' @ i
                         @ '' (fallback via NM config also failed): '') (outcome e fallback_call)
               else [''Failed to set power saving for '' @ i @ '': '' @ ex])
        else []) @
       (case outcome e (rmem_call s) of
          Some ex \<Rightarrow> [''Failed to set buffer sizes: '' @ ex]
        | None \<Rightarrow> report ''Failed to set buffer sizes: '' (outcome e (wmem_call s))) @
       report ''Failed to set TCP congestion control: '' (outcome e (tcp_call s))
     \<and> distinct (trace (apply_settings e s))
     \<and> set (trace (apply_settings e s)) \<subseteq>
         set [tso_call s i, gso_call s i, gro_call s i, iw_call s i, fallback_call,
              rmem_call s, wmem_call s, tcp_call s]"
proof (intro conjI)
  note differ = calls_differ calls_differ[symmetric]
  show "filter (\<lambda>c. c \<in> set [tso_call s i, gso_call s i, gro_call s i, iw_call s i,
                            rmem_call s, tcp_call s]) (trace (apply_settings e s)) =
       [tso_call s i, gso_call s i, gro_call s i] @
       (if powerSaveCheckBox_enabled s then [iw_call s i] else []) @
       [rmem_call s, tcp_call s]"
    by (simp add: apply_settings_trace[OF assms] differ)
  show "distinct (trace (apply_settings e s))"
    by (cases "powerSaveCheckBox_enabled s"; cases "powerSaveCheckBox s";
        cases "outcome e (iw_call s i)"; cases "outcome e (rmem_call s)")
       (simp_all add: apply_settings_trace[OF assms] differ)
  show "set (trace (apply_settings e s)) \<subseteq>
         set [tso_call s i, gso_call s i, gro_call s i, iw_call s i, fallback_call,
              rmem_call s, wmem_call s, tcp_call s]"
    by (auto simp: apply_settings_trace[OF assms])
qed (rule apply_settings_errors[OF assms])

theorem apply_sections_independent_witness:
  "current_interface wlan0_window = Some ''wlan0'' \<and> ''wlan0'' \<noteq> []
   \<and> trace (apply_settings laptop wlan0_window) =
       [Check_call [''ethtool'', ''-K'', ''wlan0'', ''tso'', ''off''],
        Check_call [''ethtool'', ''-K'', ''wlan0'', ''gso'', ''on''],
        Check_call [''ethtool'', ''-K'', ''wlan0'', ''gro'', ''off''],
        Check_call [''iw'', ''dev'', ''wlan0'', ''set'', ''power_save'', ''off''],
        Write_file nm_conf_path nm_conf_text,
        Check_call [''sysctl'', ''-w'', ''net.core.rmem_max=4194304''],
        Check_call [''sysctl'', ''-w'', ''net.ipv4.tcp_congestion_control=bbr'']]
   \<and> error_messages (apply_settings laptop wlan0_window) =
       [''Failed to set buffer sizes: permission denied'']
   \<and> distinct (trace (apply_settings laptop wlan0_window))"
proof -
  have sel: "current_interface wlan0_window = Some ''wlan0''" "''wlan0'' \<noteq> []"
    by (simp_all add: wlan0_window_def)
  have calls:
    "tso_call wlan0_window ''wlan0'' = Check_call [''ethtool'', ''-K'', ''wlan0'', ''tso'', ''off'']"
    "gso_call wlan0_window ''wlan0'' = Check_call [''ethtool'', ''-K'', ''wlan0'', ''gso'', ''on'']"
    "gro_call wlan0_window ''wlan0'' = Check_call [''ethtool'', ''-K'', ''wlan0'', ''gro'', ''off'']"
    "iw_call wlan0_window ''wlan0'' =
       Check_call [''iw'', ''dev'', ''wlan0'', ''set'', ''power_save'', ''off'']"
    "fallback_call = Write_file nm_conf_path nm_conf_text"
    "tcp_call wlan0_window =
       Check_call [''sysctl'', ''-w'', ''net.ipv4.tcp_congestion_control=bbr'']"
    by (simp_all add: tso_call_def gso_call_def gro_call_def iw_call_def tcp_call_def
          fallback_call_def offload_call_def power_save_call_def sysctl_call_def off_if_def
          wlan0_window_def)
  have "str_int (buffer_value 8) = ''4194304''"
    by code_simp
  then have buf:
    "rmem_call wlan0_window = Check_call [''sysctl'', ''-w'', ''net.core.rmem_max=4194304'']"
    "wmem_call wlan0_window = Check_call [''sysctl'', ''-w'', ''net.core.wmem_max=4194304'']"
    by (simp_all add: rmem_call_def wmem_call_def sysctl_call_def wlan0_window_def)
  have widgets: "powerSaveCheckBox_enabled wlan0_window" "powerSaveCheckBox wlan0_window"
    by (simp_all add: wlan0_window_def)
  have tr: "trace (apply_settings laptop wlan0_window) =
       [Check_call [''ethtool'', ''-K'', ''wlan0'', ''tso'', ''off''],
        Check_call [''ethtool'', ''-K'', ''wlan0'', ''gso'', ''on''],
        Check_call [''ethtool'', ''-K'', ''wlan0'', ''gro'', ''off''],
        Check_call [''iw'', ''dev'', ''wlan0'', ''set'', ''power_save'', ''off''],
        Write_file nm_conf_path nm_conf_text,
        Check_call [''sysctl'', ''-w'', ''net.core.rmem_max=4194304''],
        Check_call [''sysctl'', ''-w'', ''net.ipv4.tcp_congestion_control=bbr'']]"
    by (simp add: apply_settings_trace[OF sel] calls buf widgets laptop_def)
  from apply_sections_independent[OF sel, of laptop]
  have "error_messages (apply_settings laptop wlan0_window) =
          [''Failed to set buffer sizes: permission denied'']"
    and "distinct (trace (apply_settings laptop wlan0_window))"
    by (simp_all add: calls buf widgets laptop_def)
  with sel tr show ?thesis by simp
qed

section \<open>What apply_settings prints\<close>

lemma apply_tso_stdout:
  "stdout (apply_tso e s i r) =
     stdout r @
     (case outcome e (tso_call s i) of
        None \<Rightarrow> [''Successfully '' @ (if tsoCheckBox s then ''disabled'' else ''enabled'')
                  @ '' TSO on '' @ i @ ''.'']
      | Some ex \<Rightarrow> [])"
  by (auto simp: apply_tso_def tso_call_def offload_call_def off_if_def check_call_def
           split: option.splits)

lemma apply_gso_stdout:
  "stdout (apply_gso e s i r) =
     stdout r @
     (case outcome e (gso_call s i) of
        None \<Rightarrow> [''Successfully '' @ (if gsoCheckBox s then ''disabled'' else ''enabled'')
                  @ '' GSO on '' @ i @ ''.'']
      | Some ex \<Rightarrow> [])"
  by (auto simp: apply_gso_def gso_call_def offload_call_def off_if_def check_call_def
           split: option.splits)

lemma apply_gro_stdout:
  "stdout (apply_gro e s i r) =
     stdout r @
     (case outcome e (gro_call s i) of
        None \<Rightarrow> [''Successfully '' @ (if groCheckBox s then ''disabled'' else ''enabled'')
                  @ '' GRO on '' @ i @ ''.'']
      | Some ex \<Rightarrow> [])"
  by (auto simp: apply_gro_def gro_call_def offload_call_def off_if_def check_call_def
           split: option.splits)

lemma apply_power_save_stdout:
  "stdout (apply_power_save e s i r) =
     stdout r @
     (if powerSaveCheckBox_enabled s then
        (case outcome e (iw_call s i) of
           None \<Rightarrow> [''Successfully '' @ (if powerSaveCheckBox s then ''disabled'' else ''enabled'')
                     @ '' power saving via iw on '' @ i @ ''.'']
         | Some ex \<Rightarrow>
             if powerSaveCheckBox s \<and> outcome e fallback_call = None then
               [''Successfully disabled power saving via NetworkManager config on '' @ i @ ''.'']
             else [])
      else [])"
  by (auto simp: apply_power_save_def apply_power_save_try_def iw_call_def power_save_call_def
                 off_if_def fallback_call_def check_call_def write_file_def
           split: option.splits)

lemma apply_buffers_stdout:
  "stdout (apply_buffers e s i r) =
     stdout r @
     (if outcome e (rmem_call s) = None \<and> outcome e (wmem_call s) = None then
        [''Successfully set buffer sizes to '' @ str_half (bufferSlider s) @ '' MB on '' @ i @ ''.'']
      else [])"
  by (auto simp: apply_buffers_def rmem_call_def wmem_call_def sysctl_call_def check_call_def
           split: option.splits)

lemma apply_tcp_cc_stdout:
  "stdout (apply_tcp_cc e s i r) =
     stdout r @
     (case outcome e (tcp_call s) of
        None \<Rightarrow> [''Successfully set TCP congestion control to '' @ tcpComboBox s
                  @ '' on '' @ i @ ''.'']
      | Some ex \<Rightarrow> [])"
  by (auto simp: apply_tcp_cc_def tcp_call_def sysctl_call_def check_call_def
           split: option.splits)

lemma apply_steps_stdout:
  "stdout (apply_steps e s i) =
     (case outcome e (tso_call s i) of
        None \<Rightarrow> [''Successfully '' @ (if tsoCheckBox s then ''disabled'' else ''enabled'')
                  @ '' TSO on '' @ i @ ''.'']
      | Some ex \<Rightarrow> []) @
     (case outcome e (gso_call s i) of
        None \<Rightarrow> [''Successfully '' @ (if gsoCheckBox s then ''disabled'' else ''enabled'')
                  @ '' GSO on '' @ i @ ''.'']
      | Some ex \<Rightarrow> []) @
     (case outcome e (gro_call s i) of
        None \<Rightarrow> [''Successfully '' @ (if groCheckBox s then ''disabled'' else ''enabled'')
                  @ '' GRO on '' @ i @ ''.'']
      | Some ex \<Rightarrow> []) @
     (if powerSaveCheckBox_enabled s then
        (case outcome e (iw_call s i) of
           None \<Rightarrow> [''Successfully '' @ (if powerSaveCheckBox s then ''disabled'' else ''enabled'')
                     @ '' power saving via iw on '' @ i @ ''.'']
         | Some ex \<Rightarrow>
             if powerSaveCheckBox s \<and> outcome e fallback_call = None then
               [''Successfully disabled power saving via NetworkManager config on '' @ i @ ''.'']
             else [])
      else []) @
     (if outcome e (rmem_call s) = None \<and> outcome e (wmem_call s) = None then
        [''Successfully set buffer sizes to '' @ str_half (bufferSlider s) @ '' MB on '' @ i @ ''.'']
      else []) @
     (case outcome e (tcp_call s) of
        None \<Rightarrow> [''Successfully set TCP congestion control to '' @ tcpComboBox s
                  @ '' on '' @ i @ ''.'']
      | Some ex \<Rightarrow> [])"
  unfolding apply_steps_def
  by (simp only: apply_tcp_cc_stdout apply_buffers_stdout apply_power_save_stdout
        apply_gro_stdout apply_gso_stdout apply_tso_stdout no_run_fields) simp

lemma apply_settings_stdout:
  assumes "current_interface s = Some i" and "i \<noteq> []"
  shows "stdout (apply_settings e s) =
     stdout (apply_steps e s i) @
     (if error_messages (apply_settings e s) \<noteq> [] then
        ''Errors occurred during applying settings:'' # error_messages (apply_settings e s)
      else [''All settings applied successfully.''])"
  using assms by (simp add: apply_settings_def Let_def)

lemma starts_with_literal [simp]:
  "starts_with (c # p) (d # m) = (c = d \<and> starts_with p m)"
  "starts_with [] m = True"
  "starts_with (c # p) [] = False"
  by (auto simp: starts_with_def)

lemma filter_report_none:
  "(\<And>ex. \<not> P (p @ ex)) \<Longrightarrow> filter P (report p a) = []"
  by (cases a) simp_all

lemma power_save_failure_errors:
  "filter power_save_failure
     (report (''Failed to set TSO for '' @ i @ '': '') a @
      report (''Failed to set GSO for '' @ i @ '': '') b @
      report (''Failed to set GRO for '' @ i @ '': '') c @
      ps @
      (case d of
         Some ex \<Rightarrow> [''Failed to set buffer sizes: '' @ ex]
       | None \<Rightarrow> report ''Failed to set buffer sizes: '' d') @
      report ''Failed to set TCP congestion control: '' f) = filter power_save_failure ps"
  by (cases d) (simp_all add: filter_report_none power_save_failure_def)

lemma buffers_failure_errors:
  "filter buffers_failure
     (report (''Failed to set TSO for '' @ i @ '': '') a @
      report (''Failed to set GSO for '' @ i @ '': '') b @
      report (''Failed to set GRO for '' @ i @ '': '') c @
      (if en then
          (case d of
             None \<Rightarrow> []
           | Some ex \<Rightarrow>
               if ch then
                 report (''Failed to disable power saving for '' @ i
                         @ '' (fallback via NM config also failed): '') d'
               else [''Failed to set power saving for '' @ i @ '': '' @ ex])
        else []) @
      bs @
      report ''Failed to set TCP congestion control: '' f) = filter buffers_failure bs"
  by (cases en; cases ch; cases d) (simp_all add: filter_report_none buffers_failure_def)

lemma set_report: "(m \<in> set (report p a)) = (\<exists>ex. a = Some ex \<and> m = p @ ex)"
  by (cases a) auto

lemma starts_with_hd:
  "starts_with (c # p) m \<Longrightarrow> m \<noteq> [] \<and> hd m = c"
  by (cases m) simp_all

lemma errors_start_with_Failed:
  assumes "current_interface s = Some i" and "i \<noteq> []"
    and "m \<in> set (error_messages (apply_settings e s))"
  shows "starts_with ''Failed to '' m"
proof -
  have "m \<in> set (error_messages (apply_settings e s))"
    by (rule assms(3))
  then show ?thesis
    unfolding apply_settings_errors[OF assms(1,2)]
    by (cases "powerSaveCheckBox_enabled s"; cases "powerSaveCheckBox s";
        cases "outcome e (iw_call s i)"; cases "outcome e (rmem_call s)")
       (auto simp: set_report)
qed

lemma no_success_among_errors:
  assumes "current_interface s = Some i" and "i \<noteq> []"
  shows "filter power_save_success (error_messages (apply_settings e s)) = []"
proof -
  have "\<not> power_save_success m" if "m \<in> set (error_messages (apply_settings e s))" for m
    using starts_with_hd[OF errors_start_with_Failed[OF assms that]]
    by (auto simp: power_save_success_def dest: starts_with_hd)
  then show ?thesis
    by (simp add: filter_empty_conv)
qed

lemma power_save_success_stdout:
  assumes "current_interface s = Some i" and "i \<noteq> []"
  shows "filter power_save_success (stdout (apply_settings e s)) =
     (if powerSaveCheckBox_enabled s then
        (case outcome e (iw_call s i) of
           None \<Rightarrow> [''Successfully '' @ (if powerSaveCheckBox s then ''disabled'' else ''enabled'')
                     @ '' power saving via iw on '' @ i @ ''.'']
         | Some ex \<Rightarrow>
             if powerSaveCheckBox s \<and> outcome e fallback_call = None then
               [''Successfully disabled power saving via NetworkManager config on '' @ i @ ''.'']
             else [])
      else [])"
proof -
  have tail: "filter power_save_success
     (if error_messages (apply_settings e s) \<noteq> [] then
        ''Errors occurred during applying settings:'' # error_messages (apply_settings e s)
      else [''All settings applied successfully.'']) = []"
    using no_success_among_errors[OF assms, of e] by (simp add: power_save_success_def)
  have steps: "filter power_save_success (stdout (apply_steps e s i)) =
     (if powerSaveCheckBox_enabled s then
        (case outcome e (iw_call s i) of
           None \<Rightarrow> [''Successfully '' @ (if powerSaveCheckBox s then ''disabled'' else ''enabled'')
                     @ '' power saving via iw on '' @ i @ ''.'']
         | Some ex \<Rightarrow>
             if powerSaveCheckBox s \<and> outcome e fallback_call = None then
               [''Successfully disabled power saving via NetworkManager config on '' @ i @ ''.'']
             else [])
      else [])"
    unfolding apply_steps_stdout
    by (cases "outcome e (tso_call s i)"; cases "outcome e (gso_call s i)";
        cases "outcome e (gro_call s i)"; cases "outcome e (iw_call s i)";
        cases "outcome e (tcp_call s)")
       (simp_all add: power_save_success_def)
  show ?thesis
    unfolding apply_settings_stdout[OF assms] filter_append tail steps by simp
qed

section \<open>The fallback of the power-saving section\<close>

text \<open>
  C7. With an interface selected, \<^verbatim>\<open>apply_settings\<close> writes the NetworkManager file
  if and only if the power-saving check box is enabled and checked (the user asks for
  power saving off) and the \<^verbatim>\<open>iw\<close> write fails; never when power saving is to be
  switched on. When \<^verbatim>\<open>iw\<close> succeeds, or the file is written, the section prints its
  line of success and reports no failure. When the file cannot be written the failure
  is reported with a text of its own, which no failure of \<^verbatim>\<open>iw\<close> alone has.
\<close>

theorem power_save_fallback:
  assumes "current_interface s = Some i" and "i \<noteq> []"
  shows
    "(fallback_call \<in> set (trace (apply_settings e s))) =
       (powerSaveCheckBox_enabled s \<and> powerSaveCheckBox s
        \<and> outcome e (power_save_call i ''off'') \<noteq> None)
     \<and> filter power_save_failure (error_messages (apply_settings e s)) =
       (if powerSaveCheckBox_enabled s then
          (case outcome e (iw_call s i) of
             None \<Rightarrow> []
           | Some ex \<Rightarrow>
               if powerSaveCheckBox s then
                 report (''Failed to disable power saving for '' @ i
                         @ '' (fallback via NM config also failed): '') (outcome e fallback_call)
               else [''Failed to set power saving for '' @ i @ '': '' @ ex])
        else [])
     \<and> filter power_save_success (stdout (apply_settings e s)) =
       (if powerSaveCheckBox_enabled s then
          (case outcome e (iw_call s i) of
             None \<Rightarrow>
               [''Successfully '' @ (if powerSaveCheckBox s then ''disabled'' else ''enabled'')
                @ '' power saving via iw on '' @ i @ ''.'']
           | Some ex \<Rightarrow>
               if powerSaveCheckBox s \<and> outcome e fallback_call = None then
                 [''Successfully disabled power saving via NetworkManager config on ''
                  @ i @ ''.'']
               else [])
        else [])
     \<and> ''Failed to disable power saving for '' @ i
         @ '' (fallback via NM config also failed): '' @ ex2
       \<noteq> ''Failed to set power saving for '' @ i' @ '': '' @ ex1"
proof (intro conjI)
  note differ = calls_differ calls_differ[symmetric]
  show "(fallback_call \<in> set (trace (apply_settings e s))) =
       (powerSaveCheckBox_enabled s \<and> powerSaveCheckBox s
        \<and> outcome e (power_save_call i ''off'') \<noteq> None)"
  proof (cases "powerSaveCheckBox s")
    case True
    then have "iw_call s i = power_save_call i ''off''"
      by (simp add: iw_call_def off_if_def)
    with True show ?thesis
      using differ by (auto simp: apply_settings_trace[OF assms])
  next
    case False
    then show ?thesis
      using differ by (auto simp: apply_settings_trace[OF assms])
  qed
  show "filter power_save_failure (error_messages (apply_settings e s)) =
       (if powerSaveCheckBox_enabled s then
          (case outcome e (iw_call s i) of
             None \<Rightarrow> []
           | Some ex \<Rightarrow>
               if powerSaveCheckBox s then
                 report (''Failed to disable power saving for '' @ i
                         @ '' (fallback via NM config also failed): '') (outcome e fallback_call)
               else [''Failed to set power saving for '' @ i @ '': '' @ ex])
        else [])"
    unfolding apply_settings_errors[OF assms] power_save_failure_errors
    by (cases "powerSaveCheckBox_enabled s"; cases "powerSaveCheckBox s";
        cases "outcome e (iw_call s i)"; cases "outcome e fallback_call")
       (simp_all add: power_save_failure_def)
  show "''Failed to disable power saving for '' @ i
         @ '' (fallback via NM config also failed): '' @ ex2
       \<noteq> ''Failed to set power saving for '' @ i' @ '': '' @ ex1"
    by simp
qed (rule power_save_success_stdout[OF assms])

theorem power_save_fallback_witness:
  "current_interface wlan0_window = Some ''wlan0'' \<and> ''wlan0'' \<noteq> []
   \<and> Write_file nm_conf_path nm_conf_text \<in> set (trace (apply_settings laptop wlan0_window))
   \<and> filter power_save_failure (error_messages (apply_settings laptop wlan0_window)) = []
   \<and> filter power_save_success (stdout (apply_settings laptop wlan0_window)) =
       [''Successfully disabled power saving via NetworkManager config on wlan0.'']"
proof -
  have sel: "current_interface wlan0_window = Some ''wlan0''" "''wlan0'' \<noteq> []"
    by (simp_all add: wlan0_window_def)
  have facts:
    "powerSaveCheckBox_enabled wlan0_window" "powerSaveCheckBox wlan0_window"
    "outcome laptop (power_save_call ''wlan0'' ''off'') = Some ''Operation not supported''"
    "iw_call wlan0_window ''wlan0'' = power_save_call ''wlan0'' ''off''"
    "outcome laptop fallback_call = None"
    by (simp_all add: wlan0_window_def laptop_def power_save_call_def fallback_call_def
          iw_call_def off_if_def)
  from power_save_fallback[OF sel, of laptop] sel show ?thesis
    by (simp add: facts) (simp add: fallback_call_def)
qed

section \<open>The two writes of the buffer section\<close>

text \<open>
  C5, as the source has it. The two \<^verbatim>\<open>sysctl -w\<close> calls of the buffer section share
  one \<^verbatim>\<open>try\<close> block: the write of \<^verbatim>\<open>net.core.rmem_max\<close> is always attempted, the
  write of \<^verbatim>\<open>net.core.wmem_max\<close> exactly when the first succeeded, and the section
  reports one failure at most, \<^verbatim>\<open>Failed to set buffer sizes\<close> with the text of the
  write that failed. The congestion-control write follows in every case.
\<close>

theorem buffer_writes_share_one_try:
  assumes "current_interface s = Some i" and "i \<noteq> []"
  shows
    "rmem_call s \<in> set (trace (apply_settings e s))
     \<and> (wmem_call s \<in> set (trace (apply_settings e s))) = (outcome e (rmem_call s) = None)
     \<and> tcp_call s \<in> set (trace (apply_settings e s))
     \<and> filter buffers_failure (error_messages (apply_settings e s)) =
       (case outcome e (rmem_call s) of
          Some ex \<Rightarrow> [''Failed to set buffer sizes: '' @ ex]
        | None \<Rightarrow> report ''Failed to set buffer sizes: '' (outcome e (wmem_call s)))"
proof (intro conjI)
  note differ = calls_differ calls_differ[symmetric]
  show "rmem_call s \<in> set (trace (apply_settings e s))"
    by (simp add: apply_settings_trace[OF assms])
  show "(wmem_call s \<in> set (trace (apply_settings e s))) = (outcome e (rmem_call s) = None)"
    by (auto simp: apply_settings_trace[OF assms] differ)
  show "tcp_call s \<in> set (trace (apply_settings e s))"
    by (simp add: apply_settings_trace[OF assms])
  show "filter buffers_failure (error_messages (apply_settings e s)) =
       (case outcome e (rmem_call s) of
          Some ex \<Rightarrow> [''Failed to set buffer sizes: '' @ ex]
        | None \<Rightarrow> report ''Failed to set buffer sizes: '' (outcome e (wmem_call s)))"
    unfolding apply_settings_errors[OF assms] buffers_failure_errors
    by (cases "outcome e (rmem_call s)"; cases "outcome e (wmem_call s)")
       (simp_all add: buffers_failure_def)
qed

theorem buffer_writes_share_one_try_witness:
  "current_interface wlan0_window = Some ''wlan0'' \<and> ''wlan0'' \<noteq> []
   \<and> rmem_call wlan0_window \<in> set (trace (apply_settings laptop wlan0_window))
   \<and> wmem_call wlan0_window \<notin> set (trace (apply_settings laptop wlan0_window))
   \<and> filter buffers_failure (error_messages (apply_settings laptop wlan0_window)) =
       [''Failed to set buffer sizes: permission denied'']"
proof -
  have sel: "current_interface wlan0_window = Some ''wlan0''" "''wlan0'' \<noteq> []"
    by (simp_all add: wlan0_window_def)
  have "outcome laptop (rmem_call wlan0_window) = Some ''permission denied''"
    by (simp add: rmem_call_def sysctl_call_def laptop_def)
  with buffer_writes_share_one_try[OF sel, of laptop] sel show ?thesis
    by simp
qed

text \<open>
  C5 as the specification words it fails on the laptop: the write of
  \<^verbatim>\<open>net.core.rmem_max\<close> is denied, and no write of \<^verbatim>\<open>net.core.wmem_max\<close> is
  attempted at all.
\<close>

theorem send_buffer_write_skipped:
  "fst (session evening initial_state) = wlan0_window
   \<and> call_result laptop [''sysctl'', ''-w'', ''net.core.rmem_max=4194304'']
     = Some ''permission denied''
   \<and> Check_call [''sysctl'', ''-w'', ''net.core.rmem_max=4194304'']
       \<in> set (trace (apply_settings laptop wlan0_window))
   \<and> Check_call [''sysctl'', ''-w'', ''net.core.wmem_max=4194304'']
       \<notin> set (trace (apply_settings laptop wlan0_window))
   \<and> filter (writes_key ''net.core.wmem_max'') (trace (apply_settings laptop wlan0_window)) = []"
proof -
  have sel: "current_interface wlan0_window = Some ''wlan0''" "''wlan0'' \<noteq> []"
    by (simp_all add: wlan0_window_def)
  have "str_int (buffer_value 8) = ''4194304''"
    by code_simp
  then have buf:
    "rmem_call wlan0_window = Check_call [''sysctl'', ''-w'', ''net.core.rmem_max=4194304'']"
    by (simp_all add: rmem_call_def sysctl_call_def wlan0_window_def)
  have denied: "call_result laptop [''sysctl'', ''-w'', ''net.core.rmem_max=4194304'']
     = Some ''permission denied''"
    by (simp add: laptop_def)
  have widgets: "powerSaveCheckBox_enabled wlan0_window" "powerSaveCheckBox wlan0_window"
    by (simp_all add: wlan0_window_def)
  have tr: "trace (apply_settings laptop wlan0_window) =
     [tso_call wlan0_window ''wlan0'', gso_call wlan0_window ''wlan0'',
      gro_call wlan0_window ''wlan0'', iw_call wlan0_window ''wlan0'', fallback_call,
      Check_call [''sysctl'', ''-w'', ''net.core.rmem_max=4194304''], tcp_call wlan0_window]"
    unfolding apply_settings_trace[OF sel] by (simp add: buf denied widgets)
       (simp add: iw_call_def power_save_call_def laptop_def)
  show ?thesis
    unfolding tr using denied evening_window
    by (simp add: tso_call_def gso_call_def gro_call_def iw_call_def tcp_call_def
          fallback_call_def offload_call_def power_save_call_def sysctl_call_def writes_key_def)
qed

section \<open>The bytes of a buffer tier\<close>






section \<open>A failed read of the offload flags\<close>

text \<open>
  C8. When an interface without a snapshot is selected and \<^verbatim>\<open>ethtool -k\<close> fails, the
  snapshot stored for it has \<^verbatim>\<open>True\<close> under \<^verbatim>\<open>tso\<close>, \<^verbatim>\<open>gso\<close> and \<^verbatim>\<open>gro\<close>
  (not \<^verbatim>\<open>None\<close>, and no key missing), a warning with the text of the failure is
  shown, and the method goes on: it asks for the power-saving state and the two kernel
  parameters, the interface becomes the current one and the three check boxes end
  unchecked.
\<close>

theorem offload_read_failure_assumes_on:
  assumes "interface_defaults s i = None"
    and "output_result e [''ethtool'', ''-k'', i] = Inl ex"
  shows
    "\<exists>d. interface_defaults (fst (load_interface_settings e i s r)) i = Some d
         \<and> d ''tso'' = Some (Some True) \<and> d ''gso'' = Some (Some True)
         \<and> d ''gro'' = Some (Some True)
         \<and> Warning ''Warning'' (''Failed to get offloading settings for '' @ i @ '':\<newline>'' @ ex)
             \<in> set (dialogs (snd (load_interface_settings e i s r)))
         \<and> trace (snd (load_interface_settings e i s r)) =
             trace r @ [offload_read i, power_save_read i, sysctl_read ''net.core.rmem_max'',
                        sysctl_read ''net.ipv4.tcp_congestion_control'']
         \<and> current_interface (fst (load_interface_settings e i s r)) = Some i
         \<and> \<not> tsoCheckBox (fst (load_interface_settings e i s r))
         \<and> \<not> gsoCheckBox (fst (load_interface_settings e i s r))
         \<and> \<not> groCheckBox (fst (load_interface_settings e i s r))"
proof -
  let ?s0 = "s\<lparr>current_interface := Some i\<rparr>"
  let ?d = "fst (ensure_defaults e i ?s0 r)"
  have none: "interface_defaults ?s0 i = None"
    using assms(1) by simp
  note flags = ensure_defaults_failed[OF none assms(2), of r]
  have failed: "outcome e (offload_read i) = Some ex"
    using assms(2) by (simp add: offload_read_def)
  have stored: "interface_defaults (fst (load_interface_settings e i s r)) i = Some ?d"
    by (subst load_interface_settings_snapshot) (simp add: update_checkboxes_def Let_def)
  have boxes: "\<not> tsoCheckBox (fst (load_interface_settings e i s r))"
    "\<not> gsoCheckBox (fst (load_interface_settings e i s r))"
    "\<not> groCheckBox (fst (load_interface_settings e i s r))"
    by (subst load_interface_settings_snapshot,
        simp add: update_checkboxes_def Let_def dict_get_def truthy_def flags)+
  have tr: "trace (snd (load_interface_settings e i s r)) =
             trace r @ [offload_read i, power_save_read i, sysctl_read ''net.core.rmem_max'',
                        sysctl_read ''net.ipv4.tcp_congestion_control'']"
    by (simp add: load_interface_settings_trace assms(1))
  from stored flags load_interface_settings_dialogs[OF assms(1) failed, of r] tr boxes
  show ?thesis
    by (simp add: load_interface_settings_widgets)
qed

theorem offload_read_failure_assumes_on_witness:
  "interface_defaults wlan0_window ''eth0'' = None
   \<and> output_result laptop [''ethtool'', ''-k'', ''eth0''] = Inl ''No such device''
   \<and> (\<exists>d. interface_defaults (fst (load_interface_settings laptop ''eth0'' wlan0_window no_run))
             ''eth0'' = Some d
          \<and> d ''tso'' = Some (Some True) \<and> d ''gso'' = Some (Some True)
          \<and> d ''gro'' = Some (Some True))
   \<and> dialogs (snd (load_interface_settings laptop ''eth0'' wlan0_window no_run)) \<noteq> []"
proof -
  have uncached: "interface_defaults wlan0_window ''eth0'' = None"
    by (simp add: wlan0_window_def)
  have fails: "output_result laptop [''ethtool'', ''-k'', ''eth0''] = Inl ''No such device''"
    by (simp add: laptop_def)
  from offload_read_failure_assumes_on[OF uncached fails, of no_run] uncached fails
  show ?thesis
    by auto
qed

section \<open>Selecting an interface and the global widgets\<close>




section \<open>The sections of reset_to_defaults\<close>

lemma reset_tso_run:
  "trace (reset_tso e (snapshot_of s i) i r) = trace r @ [restore_offload_call s i ''tso'']"
  "error_messages (reset_tso e (snapshot_of s i) i r) =
     error_messages r @
     report (''Failed to reset TSO for '' @ i @ '': '') (outcome e (restore_offload_call s i ''tso''))"
  by (auto simp: reset_tso_def restore_offload_call_def offload_call_def check_call_def Let_def
           split: option.splits)

lemma reset_gso_run:
  "trace (reset_gso e (snapshot_of s i) i r) = trace r @ [restore_offload_call s i ''gso'']"
  "error_messages (reset_gso e (snapshot_of s i) i r) =
     error_messages r @
     report (''Failed to reset GSO for '' @ i @ '': '') (outcome e (restore_offload_call s i ''gso''))"
  by (auto simp: reset_gso_def restore_offload_call_def offload_call_def check_call_def Let_def
           split: option.splits)

lemma reset_gro_run:
  "trace (reset_gro e (snapshot_of s i) i r) = trace r @ [restore_offload_call s i ''gro'']"
  "error_messages (reset_gro e (snapshot_of s i) i r) =
     error_messages r @
     report (''Failed to reset GRO for '' @ i @ '': '') (outcome e (restore_offload_call s i ''gro''))"
  by (auto simp: reset_gro_def restore_offload_call_def offload_call_def check_call_def Let_def
           split: option.splits)

lemma reset_power_save_run:
  "trace (reset_power_save e (snapshot_of s i) i r) =
     trace r @ (if power_save_applicable s i then [restore_power_save_call s i] else [])"
  "error_messages (reset_power_save e (snapshot_of s i) i r) =
     error_messages r @
     (if power_save_applicable s i then
        report (''Failed to reset power saving for '' @ i @ '': '')
          (outcome e (restore_power_save_call s i))
      else [])"
  by (auto simp: reset_power_save_def restore_power_save_call_def power_save_call_def
                 power_save_applicable_def check_call_def Let_def
           split: option.splits)

lemma reset_buffers_run:
  "trace (reset_buffers e s r) =
     trace r @ restore_sysctl_call s ''net.core.rmem_max'' #
     (if outcome e (restore_sysctl_call s ''net.core.rmem_max'') = None
      then [restore_sysctl_call s ''net.core.wmem_max''] else [])"
  "error_messages (reset_buffers e s r) =
     error_messages r @
     (case outcome e (restore_sysctl_call s ''net.core.rmem_max'') of
        Some ex \<Rightarrow> [''Failed to reset buffer sizes: '' @ ex]
      | None \<Rightarrow>
          report ''Failed to reset buffer sizes: ''
            (outcome e (restore_sysctl_call s ''net.core.wmem_max'')))"
  by (auto simp: reset_buffers_def restore_sysctl_call_def sysctl_call_def check_call_def
           split: option.splits)

lemma reset_tcp_cc_run:
  "trace (reset_tcp_cc e s r) =
     trace r @ [restore_sysctl_call s ''net.ipv4.tcp_congestion_control'']"
  "error_messages (reset_tcp_cc e s r) =
     error_messages r @
     report ''Failed to reset TCP congestion control: ''
       (outcome e (restore_sysctl_call s ''net.ipv4.tcp_congestion_control''))"
  by (auto simp: reset_tcp_cc_def restore_sysctl_call_def sysctl_call_def check_call_def
           split: option.splits)

lemma reset_steps_trace:
  "trace (reset_steps e s i) =
     [restore_offload_call s i ''tso'', restore_offload_call s i ''gso'',
      restore_offload_call s i ''gro''] @
     (if power_save_applicable s i then [restore_power_save_call s i] else []) @
     restore_sysctl_call s ''net.core.rmem_max'' #
     (if outcome e (restore_sysctl_call s ''net.core.rmem_max'') = None
      then [restore_sysctl_call s ''net.core.wmem_max''] else []) @
     [restore_sysctl_call s ''net.ipv4.tcp_congestion_control'']"
  unfolding reset_steps_def Let_def snapshot_of_def[symmetric]
  by (simp only: reset_tcp_cc_run reset_buffers_run reset_power_save_run reset_gro_run
        reset_gso_run reset_tso_run no_run_fields) simp

lemma reset_steps_errors:
  "error_messages (reset_steps e s i) =
     report (''Failed to reset TSO for '' @ i @ '': '') (outcome e (restore_offload_call s i ''tso'')) @
     report (''Failed to reset GSO for '' @ i @ '': '') (outcome e (restore_offload_call s i ''gso'')) @
     report (''Failed to reset GRO for '' @ i @ '': '') (outcome e (restore_offload_call s i ''gro'')) @
     (if power_save_applicable s i then
        report (''Failed to reset power saving for '' @ i @ '': '')
          (outcome e (restore_power_save_call s i))
      else []) @
     (case outcome e (restore_sysctl_call s ''net.core.rmem_max'') of
        Some ex \<Rightarrow> [''Failed to reset buffer sizes: '' @ ex]
      | None \<Rightarrow>
          report ''Failed to reset buffer sizes: ''
            (outcome e (restore_sysctl_call s ''net.core.wmem_max''))) @
     report ''Failed to reset TCP congestion control: ''
       (outcome e (restore_sysctl_call s ''net.ipv4.tcp_congestion_control''))"
  unfolding reset_steps_def Let_def snapshot_of_def[symmetric]
  by (simp only: reset_tcp_cc_run reset_buffers_run reset_power_save_run reset_gro_run
        reset_gso_run reset_tso_run no_run_fields) simp

lemma detect_errors:
  "error_messages (snd (detect_offloading e i d r)) = error_messages r"
  "error_messages (snd (detect_power_save e i d r)) = error_messages r"
  by (auto simp: detect_offloading_def detect_power_save_def check_output_def
           split: sum.splits)

lemma ensure_defaults_errors:
  "error_messages (snd (snd (ensure_defaults e i s r))) = error_messages r"
  by (simp add: ensure_defaults_def case_prod_unfold detect_errors split: option.splits)

lemma load_globals_errors:
  "error_messages (snd (load_buffer_size e s r)) = error_messages r"
  "error_messages (snd (load_tcp_cc e s r)) = error_messages r"
  by (auto simp: load_buffer_size_def load_tcp_cc_def check_output_def split: sum.splits)

lemma load_interface_settings_errors:
  "error_messages (snd (load_interface_settings e i s r)) = error_messages r"
  by (simp add: load_interface_settings_def case_prod_unfold load_globals_errors
        ensure_defaults_errors)

lemma reset_to_defaults_run:
  assumes "current_interface s = Some i" and "i \<noteq> []"
  shows "error_messages (snd (reset_to_defaults e s)) = error_messages (reset_steps e s i)"
    and "trace (snd (reset_to_defaults e s)) =
           trace (reset_steps e s i) @
           (if error_messages (reset_steps e s i) = []
            then (case interface_defaults s i of
                    None \<Rightarrow> [offload_read i, power_save_read i] | Some d \<Rightarrow> [])
                 @ [sysctl_read ''net.core.rmem_max'',
                    sysctl_read ''net.ipv4.tcp_congestion_control'']
            else [])"
    and "filter interface_write (trace (snd (reset_to_defaults e s))) =
           filter interface_write (trace (reset_steps e s i))"
  using assms
  by (auto simp: reset_to_defaults_def Let_def load_interface_settings_errors
        load_interface_settings_trace interface_write_def sysctl_read_def offload_read_def
        power_save_read_def split: option.splits)

section \<open>Resetting a flag that was never detected\<close>

lemma filter_report_all:
  "(\<And>ex. P (p @ ex)) \<Longrightarrow> filter P (report p a) = report p a"
  by (cases a) simp_all

lemma starts_with_append [simp]: "starts_with p (p @ m)"
  by (simp add: starts_with_def)

text \<open>
  C10. With an interface selected, a flag among \<^verbatim>\<open>tso\<close>, \<^verbatim>\<open>gso\<close>, \<^verbatim>\<open>gro\<close> that
  the snapshot of the interface lacks (or whose interface has no snapshot at all) is
  written \<^verbatim>\<open>on\<close> by \<^verbatim>\<open>reset_to_defaults\<close>, and the reset reports a failure for that
  flag if and only if that write fails.
\<close>

theorem undetected_flag_reset_to_on:
  assumes "current_interface s = Some i" and "i \<noteq> []"
    and "flag \<in> set [''tso'', ''gso'', ''gro'']"
    and "case interface_defaults s i of None \<Rightarrow> True | Some d \<Rightarrow> d flag = None"
  shows
    "offload_call i flag ''on'' \<in> set (trace (snd (reset_to_defaults e s)))
     \<and> filter (starts_with (''Failed to reset '' @ flag_label flag @ '' for ''))
         (error_messages (snd (reset_to_defaults e s))) =
       report (''Failed to reset '' @ flag_label flag @ '' for '' @ i @ '': '')
         (outcome e (offload_call i flag ''on''))"
proof -
  have absent: "snapshot_of s i flag = None"
    using assms(4) by (simp add: snapshot_of_def split: option.splits)
  then have call: "restore_offload_call s i flag = offload_call i flag ''on''"
    by (simp add: restore_offload_call_def dict_get_def on_off_def truthy_def)
  have attempted: "restore_offload_call s i flag \<in> set (trace (reset_steps e s i))"
    using assms(3) by (auto simp: reset_steps_trace)
  have reported:
    "filter (starts_with (''Failed to reset '' @ flag_label flag @ '' for ''))
       (error_messages (reset_steps e s i)) =
     report (''Failed to reset '' @ flag_label flag @ '' for '' @ i @ '': '')
       (outcome e (restore_offload_call s i flag))"
    using assms(3) unfolding reset_steps_errors
    by (cases "power_save_applicable s i";
        cases "outcome e (restore_sysctl_call s ''net.core.rmem_max'')")
       (auto simp: flag_label_def filter_report_none filter_report_all)
  from attempted reported show ?thesis
    by (simp add: reset_to_defaults_run[OF assms(1,2)] call)
qed

theorem undetected_flag_reset_to_on_witness:
  "current_interface (wlan0_window\<lparr>current_interface := Some ''eth0''\<rparr>) = Some ''eth0''
   \<and> ''eth0'' \<noteq> [] \<and> ''gso'' \<in> set [''tso'', ''gso'', ''gro'']
   \<and> interface_defaults (wlan0_window\<lparr>current_interface := Some ''eth0''\<rparr>) ''eth0'' = None
   \<and> Check_call [''ethtool'', ''-K'', ''eth0'', ''gso'', ''on'']
       \<in> set (trace (snd (reset_to_defaults laptop
                 (wlan0_window\<lparr>current_interface := Some ''eth0''\<rparr>))))
   \<and> filter (starts_with ''Failed to reset GSO for '')
        (error_messages (snd (reset_to_defaults laptop
           (wlan0_window\<lparr>current_interface := Some ''eth0''\<rparr>)))) = []"
proof -
  let ?s = "wlan0_window\<lparr>current_interface := Some ''eth0''\<rparr>"
  have sel: "current_interface ?s = Some ''eth0''" "''eth0'' \<noteq> []"
    by simp_all
  have flag: "''gso'' \<in> set [''tso'', ''gso'', ''gro'']"
    by simp
  have none: "interface_defaults ?s ''eth0'' = None"
    by (simp add: wlan0_window_def)
  then have absent: "case interface_defaults ?s ''eth0'' of None \<Rightarrow> True | Some d \<Rightarrow> d ''gso'' = None"
    by simp
  from undetected_flag_reset_to_on[OF sel flag absent, of laptop] sel none show ?thesis
    by (simp add: flag_label_def offload_call_def laptop_def)
qed

section \<open>reset_to_defaults against apply_settings\<close>

lemma derived_calls:
  assumes "interface_defaults s i = Some d"
  shows "tso_call (update_checkboxes d s) i = restore_offload_call s i ''tso''"
    and "gso_call (update_checkboxes d s) i = restore_offload_call s i ''gso''"
    and "gro_call (update_checkboxes d s) i = restore_offload_call s i ''gro''"
    and "powerSaveCheckBox_enabled (update_checkboxes d s) = power_save_applicable s i"
    and "power_save_applicable s i \<Longrightarrow>
           iw_call (update_checkboxes d s) i = restore_power_save_call s i"
    and "current_interface (update_checkboxes d s) = current_interface s"
  using assms
  by (simp_all add: update_checkboxes_def Let_def tso_call_def gso_call_def gro_call_def
        iw_call_def restore_offload_call_def restore_power_save_call_def
        power_save_applicable_def snapshot_of_def off_if_def on_off_def)

lemma interface_write_calls:
  "interface_write (offload_call i f v)" "interface_write (power_save_call i v)"
  "\<not> interface_write fallback_call" "\<not> interface_write (sysctl_call k v)"
  by (simp_all add: interface_write_def offload_call_def power_save_call_def fallback_call_def
        sysctl_call_def)

lemma reset_steps_interface_writes:
  "filter interface_write (trace (reset_steps e s i)) =
     [restore_offload_call s i ''tso'', restore_offload_call s i ''gso'',
      restore_offload_call s i ''gro''] @
     (if power_save_applicable s i then [restore_power_save_call s i] else [])"
  unfolding reset_steps_trace
  by (cases "power_save_applicable s i";
      cases "outcome e (restore_sysctl_call s ''net.core.rmem_max'')")
     (simp_all add: interface_write_calls restore_offload_call_def restore_power_save_call_def
        restore_sysctl_call_def)

lemma apply_settings_interface_writes:
  assumes "current_interface s = Some i" and "i \<noteq> []"
  shows "filter interface_write (trace (apply_settings e s)) =
     [tso_call s i, gso_call s i, gro_call s i] @
     (if powerSaveCheckBox_enabled s then [iw_call s i] else [])"
  unfolding apply_settings_trace[OF assms]
  by (cases "powerSaveCheckBox_enabled s"; cases "powerSaveCheckBox s";
      cases "outcome e (iw_call s i)"; cases "outcome e (rmem_call s)")
     (simp_all add: interface_write_calls tso_call_def gso_call_def gro_call_def iw_call_def
        rmem_call_def wmem_call_def tcp_call_def)

lemma no_fallback_in_reset_steps: "fallback_call \<notin> set (trace (reset_steps e s i))"
  unfolding reset_steps_trace
  by (cases "power_save_applicable s i";
      cases "outcome e (restore_sysctl_call s ''net.core.rmem_max'')")
     (simp_all add: fallback_call_def restore_offload_call_def restore_power_save_call_def
        restore_sysctl_call_def offload_call_def power_save_call_def sysctl_call_def)

text \<open>
  C2, as the source has it. For an interface with a snapshot, \<^verbatim>\<open>reset_to_defaults\<close>
  attempts the same \<^verbatim>\<open>ethtool\<close> writes and the same \<^verbatim>\<open>iw\<close> write, in the same
  order, as \<^verbatim>\<open>apply_settings\<close> does when the check boxes are those derived from the
  snapshot. It has no fallback: the NetworkManager file is never written by a reset, and
  a failed \<^verbatim>\<open>iw\<close> write is reported as the failure of the reset of power saving.
\<close>

theorem reset_repeats_primary_writes:
  assumes "current_interface s = Some i" and "i \<noteq> []"
    and "interface_defaults s i = Some d"
  shows
    "filter interface_write (trace (snd (reset_to_defaults e s))) =
       filter interface_write (trace (apply_settings e (update_checkboxes d s)))
     \<and> fallback_call \<notin> set (trace (snd (reset_to_defaults e s)))
     \<and> (power_save_applicable s i \<and> outcome e (restore_power_save_call s i) = Some ex \<longrightarrow>
          ''Failed to reset power saving for '' @ i @ '': '' @ ex
            \<in> set (error_messages (snd (reset_to_defaults e s))))"
proof (intro conjI impI)
  note derived = derived_calls[OF assms(3)]
  have sel': "current_interface (update_checkboxes d s) = Some i"
    using assms(1) derived(6) by simp
  show "filter interface_write (trace (snd (reset_to_defaults e s))) =
       filter interface_write (trace (apply_settings e (update_checkboxes d s)))"
    unfolding reset_to_defaults_run(3)[OF assms(1,2)] reset_steps_interface_writes
      apply_settings_interface_writes[OF sel' assms(2)]
    by (cases "power_save_applicable s i") (simp_all add: derived)
  show "fallback_call \<notin> set (trace (snd (reset_to_defaults e s)))"
    unfolding reset_to_defaults_run(2)[OF assms(1,2)]
    using no_fallback_in_reset_steps[of e s i]
    by (cases "error_messages (reset_steps e s i) = []")
       (simp_all add: assms(3) fallback_call_def sysctl_read_def)
  assume "power_save_applicable s i \<and> outcome e (restore_power_save_call s i) = Some ex"
  then show "''Failed to reset power saving for '' @ i @ '': '' @ ex
            \<in> set (error_messages (snd (reset_to_defaults e s)))"
    by (simp add: reset_to_defaults_run(1)[OF assms(1,2)] reset_steps_errors)
qed

theorem reset_repeats_primary_writes_witness:
  "current_interface wlan0_window = Some ''wlan0'' \<and> ''wlan0'' \<noteq> []
   \<and> interface_defaults wlan0_window ''wlan0'' = Some wlan0_snapshot
   \<and> filter interface_write (trace (snd (reset_to_defaults laptop wlan0_window))) =
       [Check_call [''ethtool'', ''-K'', ''wlan0'', ''tso'', ''on''],
        Check_call [''ethtool'', ''-K'', ''wlan0'', ''gso'', ''on''],
        Check_call [''ethtool'', ''-K'', ''wlan0'', ''gro'', ''off''],
        Check_call [''iw'', ''dev'', ''wlan0'', ''set'', ''power_save'', ''off'']]
   \<and> filter interface_write
        (trace (apply_settings laptop (update_checkboxes wlan0_snapshot wlan0_window))) =
       [Check_call [''ethtool'', ''-K'', ''wlan0'', ''tso'', ''on''],
        Check_call [''ethtool'', ''-K'', ''wlan0'', ''gso'', ''on''],
        Check_call [''ethtool'', ''-K'', ''wlan0'', ''gro'', ''off''],
        Check_call [''iw'', ''dev'', ''wlan0'', ''set'', ''power_save'', ''off'']]
   \<and> ''Failed to reset power saving for wlan0: Operation not supported''
       \<in> set (error_messages (snd (reset_to_defaults laptop wlan0_window)))"
proof -
  have sel: "current_interface wlan0_window = Some ''wlan0''" "''wlan0'' \<noteq> []"
    and snap: "interface_defaults wlan0_window ''wlan0'' = Some wlan0_snapshot"
    by (simp_all add: wlan0_window_def)
  have wr: "filter interface_write (trace (snd (reset_to_defaults laptop wlan0_window))) =
       [Check_call [''ethtool'', ''-K'', ''wlan0'', ''tso'', ''on''],
        Check_call [''ethtool'', ''-K'', ''wlan0'', ''gso'', ''on''],
        Check_call [''ethtool'', ''-K'', ''wlan0'', ''gro'', ''off''],
        Check_call [''iw'', ''dev'', ''wlan0'', ''set'', ''power_save'', ''off'']]"
    unfolding reset_to_defaults_run(3)[OF sel] reset_steps_interface_writes
    by (simp add: power_save_applicable_def restore_offload_call_def
          restore_power_save_call_def snapshot_of_def snap wlan0_snapshot_def dict_get_def
          on_off_def truthy_def offload_call_def power_save_call_def)
  have app: "power_save_applicable wlan0_window ''wlan0''"
    and fails: "outcome laptop (restore_power_save_call wlan0_window ''wlan0'')
                  = Some ''Operation not supported''"
    by (simp_all add: power_save_applicable_def restore_power_save_call_def snapshot_of_def
          snap wlan0_snapshot_def dict_get_def power_save_call_def laptop_def)
  from reset_repeats_primary_writes[OF sel snap, of laptop "''Operation not supported''"]
    sel snap wr app fails
  show ?thesis
    by simp
qed

text \<open>
  C2 as the specification words it fails on the laptop: power saving was off when the
  window opened and \<^verbatim>\<open>iw\<close> refuses to set it. \<^verbatim>\<open>apply_settings\<close> with the derived
  check boxes writes the NetworkManager file; \<^verbatim>\<open>reset_to_defaults\<close> attempts the same
  \<^verbatim>\<open>iw\<close> write and no file.
\<close>

theorem reset_has_no_fallback:
  "fst (session evening initial_state) = wlan0_window
   \<and> interface_defaults wlan0_window ''wlan0'' = Some wlan0_snapshot
   \<and> wlan0_snapshot ''power_save'' = Some (Some False)
   \<and> call_result laptop [''iw'', ''dev'', ''wlan0'', ''set'', ''power_save'', ''off'']
       = Some ''Operation not supported''
   \<and> Check_call [''iw'', ''dev'', ''wlan0'', ''set'', ''power_save'', ''off'']
       \<in> set (trace (apply_settings laptop (update_checkboxes wlan0_snapshot wlan0_window)))
   \<and> Write_file nm_conf_path nm_conf_text
       \<in> set (trace (apply_settings laptop (update_checkboxes wlan0_snapshot wlan0_window)))
   \<and> Check_call [''iw'', ''dev'', ''wlan0'', ''set'', ''power_save'', ''off'']
       \<in> set (trace (snd (reset_to_defaults laptop wlan0_window)))
   \<and> Write_file nm_conf_path nm_conf_text
       \<notin> set (trace (snd (reset_to_defaults laptop wlan0_window)))"
proof -
  have sel: "current_interface wlan0_window = Some ''wlan0''" "''wlan0'' \<noteq> []"
    and snap: "interface_defaults wlan0_window ''wlan0'' = Some wlan0_snapshot"
    by (simp_all add: wlan0_window_def)
  note derived = derived_calls[OF snap]
  have sel': "current_interface (update_checkboxes wlan0_snapshot wlan0_window) = Some ''wlan0''"
    using sel(1) derived(6) by simp
  have app: "power_save_applicable wlan0_window ''wlan0''"
    and iw: "restore_power_save_call wlan0_window ''wlan0''
               = Check_call [''iw'', ''dev'', ''wlan0'', ''set'', ''power_save'', ''off'']"
    and checked: "powerSaveCheckBox (update_checkboxes wlan0_snapshot wlan0_window)"
    by (simp_all add: power_save_applicable_def restore_power_save_call_def snapshot_of_def
          snap wlan0_snapshot_def dict_get_def power_save_call_def on_off_def truthy_def
          update_checkboxes_def)
  have refused: "call_result laptop [''iw'', ''dev'', ''wlan0'', ''set'', ''power_save'', ''off'']
       = Some ''Operation not supported''"
    by (simp add: laptop_def)
  have a: "Check_call [''iw'', ''dev'', ''wlan0'', ''set'', ''power_save'', ''off'']
       \<in> set (trace (apply_settings laptop (update_checkboxes wlan0_snapshot wlan0_window)))"
    and b: "Write_file nm_conf_path nm_conf_text
       \<in> set (trace (apply_settings laptop (update_checkboxes wlan0_snapshot wlan0_window)))"
    unfolding apply_settings_trace[OF sel' sel(2)]
    by (simp_all add: derived app iw checked refused fallback_call_def)
  have c: "Check_call [''iw'', ''dev'', ''wlan0'', ''set'', ''power_save'', ''off'']
       \<in> set (trace (snd (reset_to_defaults laptop wlan0_window)))"
    unfolding reset_to_defaults_run(2)[OF sel] reset_steps_trace
    by (simp add: app iw)
  have d: "Write_file nm_conf_path nm_conf_text
       \<notin> set (trace (snd (reset_to_defaults laptop wlan0_window)))"
    unfolding reset_to_defaults_run(2)[OF sel]
    using no_fallback_in_reset_steps[of laptop wlan0_window "''wlan0''"]
    by (cases "error_messages (reset_steps laptop wlan0_window ''wlan0'') = []")
       (simp_all add: snap fallback_call_def sysctl_read_def)
  from evening_window snap refused a b c d show ?thesis
    by (simp add: wlan0_snapshot_def)
qed

section \<open>Resetting global parameters that were never read\<close>

text \<open>
  C3 at a concrete machine. In the container the read of
  \<^verbatim>\<open>net.ipv4.tcp_congestion_control\<close> fails when the window opens, so
  \<^verbatim>\<open>global_defaults\<close> stays empty. \<^verbatim>\<open>reset_to_defaults\<close> then does not skip the
  global parameters: it calls \<^verbatim>\<open>sysctl -w\<close> with the text \<^verbatim>\<open>None\<close> as the value of
  \<^verbatim>\<open>net.core.rmem_max\<close> and of \<^verbatim>\<open>net.ipv4.tcp_congestion_control\<close>.
\<close>

theorem reset_writes_None_for_unread_defaults:
  "global_defaults (fst (start container [''lo'', ''eth0''] initial_state)) = []
   \<and> current_interface (fst (start container [''lo'', ''eth0''] initial_state)) = Some ''eth0''
   \<and> trace (snd (reset_to_defaults container
                    (fst (start container [''lo'', ''eth0''] initial_state)))) =
       [Check_call [''ethtool'', ''-K'', ''eth0'', ''tso'', ''on''],
        Check_call [''ethtool'', ''-K'', ''eth0'', ''gso'', ''on''],
        Check_call [''ethtool'', ''-K'', ''eth0'', ''gro'', ''on''],
        Check_call [''sysctl'', ''-w'', ''net.core.rmem_max=None''],
        Check_call [''sysctl'', ''-w'', ''net.ipv4.tcp_congestion_control=None'']]
   \<and> error_messages (snd (reset_to_defaults container
                    (fst (start container [''lo'', ''eth0''] initial_state)))) =
       [''Failed to reset buffer sizes: Invalid argument'',
        ''Failed to reset TCP congestion control: Invalid argument'']"
proof -
  let ?s = "fst (start container [''lo'', ''eth0''] initial_state)"
  have glob: "global_defaults ?s = []"
    by (simp add: start_def Let_def case_prod_unfold load_global_defaults_def
          check_output_def container_def load_interface_settings_widgets initial_state_def)
  have sel: "current_interface ?s = Some ''eth0''" "''eth0'' \<noteq> []"
    by (simp_all add: start_def Let_def case_prod_unfold load_global_defaults_widgets
          load_interface_settings_widgets)
  have snap: "interface_defaults ?s ''eth0'' =
      Some [''tso'' \<mapsto> Some True, ''gso'' \<mapsto> Some True, ''gro'' \<mapsto> Some True,
            ''power_save'' \<mapsto> None]"
    by (simp add: start_def Let_def case_prod_unfold load_global_defaults_widgets)
       (simp add: load_interface_settings_snapshot update_checkboxes_def Let_def
          ensure_defaults_def detect_offloading_def detect_power_save_def check_output_def
          container_def initial_state_def)
  have calls:
    "restore_offload_call ?s ''eth0'' ''tso'' = Check_call [''ethtool'', ''-K'', ''eth0'', ''tso'', ''on'']"
    "restore_offload_call ?s ''eth0'' ''gso'' = Check_call [''ethtool'', ''-K'', ''eth0'', ''gso'', ''on'']"
    "restore_offload_call ?s ''eth0'' ''gro'' = Check_call [''ethtool'', ''-K'', ''eth0'', ''gro'', ''on'']"
    "\<not> power_save_applicable ?s ''eth0''"
    "restore_sysctl_call ?s ''net.core.rmem_max'' =
       Check_call [''sysctl'', ''-w'', ''net.core.rmem_max=None'']"
    "restore_sysctl_call ?s ''net.ipv4.tcp_congestion_control'' =
       Check_call [''sysctl'', ''-w'', ''net.ipv4.tcp_congestion_control=None'']"
    unfolding restore_offload_call_def power_save_applicable_def restore_sysctl_call_def
      snapshot_of_def snap glob
    by (simp_all add: dict_get_def on_off_def truthy_def offload_call_def sysctl_call_def
          str_get_def)
  have refused:
    "call_result container [''ethtool'', ''-K'', ''eth0'', ''tso'', ''on''] = None"
    "call_result container [''ethtool'', ''-K'', ''eth0'', ''gso'', ''on''] = None"
    "call_result container [''ethtool'', ''-K'', ''eth0'', ''gro'', ''on''] = None"
    "call_result container [''sysctl'', ''-w'', ''net.core.rmem_max=None'']
       = Some ''Invalid argument''"
    "call_result container [''sysctl'', ''-w'', ''net.ipv4.tcp_congestion_control=None'']
       = Some ''Invalid argument''"
    by (simp_all add: container_def)
  have errs: "error_messages (reset_steps container ?s ''eth0'') =
       [''Failed to reset buffer sizes: Invalid argument'',
        ''Failed to reset TCP congestion control: Invalid argument'']"
    unfolding reset_steps_errors by (simp add: calls refused)
  have tr: "trace (reset_steps container ?s ''eth0'') =
       [Check_call [''ethtool'', ''-K'', ''eth0'', ''tso'', ''on''],
        Check_call [''ethtool'', ''-K'', ''eth0'', ''gso'', ''on''],
        Check_call [''ethtool'', ''-K'', ''eth0'', ''gro'', ''on''],
        Check_call [''sysctl'', ''-w'', ''net.core.rmem_max=None''],
        Check_call [''sysctl'', ''-w'', ''net.ipv4.tcp_congestion_control=None'']]"
    unfolding reset_steps_trace by (simp add: calls refused)
  from glob sel(1) show ?thesis
    unfolding reset_to_defaults_run(1,2)[OF sel] errs tr by simp
qed

section \<open>A snapshot is taken once\<close>

lemma ensure_defaults_cached:
  "interface_defaults s i = Some d \<Longrightarrow> ensure_defaults e i s r = (d, s, r)"
  by (simp add: ensure_defaults_def)

lemma load_interface_defaults:
  "interface_defaults (fst (load_interface_settings e j s r)) =
     (interface_defaults s)
       (j \<mapsto> fst (ensure_defaults e j (s\<lparr>current_interface := Some j\<rparr>) r))"
  by (subst load_interface_settings_snapshot) (simp add: update_checkboxes_def Let_def)

lemma load_keeps_snapshot:
  assumes "interface_defaults s i = Some d"
  shows "interface_defaults (fst (load_interface_settings e j s r)) i = Some d"
proof (cases "j = i")
  case True
  have "interface_defaults (s\<lparr>current_interface := Some i\<rparr>) i = Some d"
    using assms by simp
  from ensure_defaults_cached[OF this] True show ?thesis
    by (simp add: load_interface_defaults)
next
  case False
  with assms show ?thesis
    by (simp add: load_interface_defaults)
qed

lemma load_stores_snapshot:
  "interface_defaults (fst (load_interface_settings e i s r)) i \<noteq> None"
  by (simp add: load_interface_defaults)

lemma reads_interface_simps [simp]:
  "reads_interface i (offload_read j) = (j = i)"
  "reads_interface i (power_save_read j) = (j = i)"
  "\<not> reads_interface i (sysctl_read k)"
  "\<not> reads_interface i (Check_call argv)"
  "\<not> reads_interface i (Write_file p t)"
  by (auto simp: reads_interface_def offload_read_def power_save_read_def sysctl_read_def)

lemma load_reads:
  "filter (reads_interface i) (trace (snd (load_interface_settings e j s r))) =
     filter (reads_interface i) (trace r) @
     (if j = i \<and> interface_defaults s i = None then [offload_read i, power_save_read i]
      else [])"
  unfolding load_interface_settings_trace
  by (cases "interface_defaults s j") auto

lemma load_global_defaults_reads:
  "filter (reads_interface i) (trace (snd (load_global_defaults e s r))) =
     filter (reads_interface i) (trace r)"
  by (auto simp: load_global_defaults_def check_output_def reads_interface_def offload_read_def
        power_save_read_def split: sum.splits)

lemma no_reads_in_calls [simp]:
  "\<not> reads_interface i (offload_call j f v)" "\<not> reads_interface i (power_save_call j v)"
  "\<not> reads_interface i fallback_call" "\<not> reads_interface i (sysctl_call k v)"
  by (simp_all add: offload_call_def power_save_call_def fallback_call_def sysctl_call_def)

lemma apply_settings_reads:
  "filter (reads_interface i) (trace (apply_settings e s)) = []"
proof (cases "current_interface s")
  case None
  then show ?thesis by (simp add: apply_settings_def)
next
  case (Some j)
  show ?thesis
  proof (cases "j = []")
    case True
    with Some show ?thesis by (simp add: apply_settings_def)
  next
    case False
    show ?thesis
      unfolding apply_settings_trace[OF Some False]
      by (cases "powerSaveCheckBox_enabled s"; cases "powerSaveCheckBox s";
          cases "outcome e (iw_call s j)"; cases "outcome e (rmem_call s)")
         (simp_all add: tso_call_def gso_call_def gro_call_def iw_call_def rmem_call_def
            wmem_call_def tcp_call_def)
  qed
qed

lemma reset_steps_reads:
  "filter (reads_interface i) (trace (reset_steps e s j)) = []"
  unfolding reset_steps_trace
  by (cases "power_save_applicable s j";
      cases "outcome e (restore_sysctl_call s ''net.core.rmem_max'')")
     (simp_all add: restore_offload_call_def restore_power_save_call_def
        restore_sysctl_call_def)

text \<open>
  One event: the snapshots already taken stay as they are and are not read again; an
  interface without a snapshot is read at most once, and has a snapshot from then on.
\<close>

lemma step_snapshot:
  "(interface_defaults s i = Some d \<longrightarrow>
      interface_defaults (fst (step e ev s)) i = Some d
      \<and> filter (reads_interface i) (trace (snd (step e ev s))) = [])
   \<and> (filter (reads_interface i) (trace (snd (step e ev s))) = []
      \<or> filter (reads_interface i) (trace (snd (step e ev s))) =
           [offload_read i, power_save_read i]
        \<and> interface_defaults s i = None
        \<and> interface_defaults (fst (step e ev s)) i \<noteq> None)"
proof (cases ev)
  case (Start ifs)
  let ?s1 = "s\<lparr>available_interfaces := filter (\<lambda>iface. iface \<noteq> ''lo'') ifs\<rparr>"
  show ?thesis
  proof (cases "available_interfaces ?s1 = []")
    case True
    then show ?thesis
      using Start
      by (simp add: start_def Let_def load_global_defaults_reads load_global_defaults_widgets)
  next
    case False
    let ?j = "hd (available_interfaces ?s1)"
    have st: "step e ev s =
        load_global_defaults e (fst (load_interface_settings e ?j ?s1 no_run))
          (snd (load_interface_settings e ?j ?s1 no_run))"
      using Start False by (simp add: start_def Let_def case_prod_unfold)
    have keep: "interface_defaults ?s1 i = Some d \<Longrightarrow>
        interface_defaults (fst (load_interface_settings e ?j ?s1 no_run)) i = Some d"
      by (rule load_keeps_snapshot)
    show ?thesis
      unfolding st
      using keep load_stores_snapshot[of e i ?s1 no_run]
      by (auto simp: load_global_defaults_reads load_global_defaults_widgets load_reads)
  qed
next
  case (Select_interface j)
  show ?thesis
    using load_keeps_snapshot[of s i d e j no_run] load_stores_snapshot[of e i s no_run]
    by (auto simp: Select_interface on_interface_change_def load_reads)
next
  case Click_apply
  then show ?thesis by (simp add: apply_settings_reads)
next
  case Click_reset
  show ?thesis
  proof (cases "current_interface s")
    case None
    then show ?thesis using Click_reset by (simp add: reset_to_defaults_def)
  next
    case (Some j)
    show ?thesis
    proof (cases "j = [] \<or> error_messages (reset_steps e s j) \<noteq> []")
      case True
      with Some Click_reset show ?thesis
        by (auto simp: reset_to_defaults_def Let_def reset_steps_reads)
    next
      case False
      let ?r = "print ''All settings reset to defaults successfully.''
                 (show_dialog
                   (Information ''Success'' ''Settings reset to defaults successfully.'')
                   (reset_steps e s j))"
      have st: "step e ev s = load_interface_settings e j s ?r"
        using Click_reset Some False by (simp add: reset_to_defaults_def Let_def)
      have quiet: "filter (reads_interface i) (trace ?r) = []"
        by (simp add: reset_steps_reads)
      show ?thesis
        unfolding st
        using load_keeps_snapshot[of s i d e j ?r] load_stores_snapshot[of e i s ?r] quiet
        by (auto simp: load_reads)
    qed
  qed
qed (auto simp: bufferSlider_setValue_def)

lemma session_snapshot:
  "(interface_defaults s i = Some d \<longrightarrow>
      interface_defaults (fst (session evs s)) i = Some d
      \<and> filter (reads_interface i) (snd (session evs s)) = [])
   \<and> (filter (reads_interface i) (snd (session evs s)) = []
      \<or> filter (reads_interface i) (snd (session evs s)) = [offload_read i, power_save_read i]
        \<and> interface_defaults s i = None)"
proof (induction evs arbitrary: s)
  case Nil
  show ?case by simp
next
  case (Cons x evs)
  obtain e ev where x: "x = (e, ev)" by (cases x)
  let ?s1 = "fst (step e ev s)"
  have unfold: "fst (session (x # evs) s) = fst (session evs ?s1)"
    "snd (session (x # evs) s) = trace (snd (step e ev s)) @ snd (session evs ?s1)"
    by (simp_all add: x case_prod_unfold)
  note one = step_snapshot[of s i d e ev]
  note rest = Cons.IH[of ?s1]
  show ?case
  proof (cases "interface_defaults s i")
    case None
    from step_snapshot[of s i d e ev]
    consider (quiet) "filter (reads_interface i) (trace (snd (step e ev s))) = []"
      | (taken) "filter (reads_interface i) (trace (snd (step e ev s))) =
                   [offload_read i, power_save_read i]"
                "interface_defaults ?s1 i \<noteq> None"
      by blast
    then show ?thesis
    proof cases
      case quiet
      with rest None show ?thesis
        unfolding unfold by auto
    next
      case taken
      then obtain d1 where "interface_defaults ?s1 i = Some d1"
        by blast
      with Cons.IH[of ?s1] have "filter (reads_interface i) (snd (session evs ?s1)) = []"
        by auto
      with taken None show ?thesis
        unfolding unfold by simp
    qed
  next
    case (Some d0)
    with step_snapshot[of s i d0 e ev]
    have kept: "interface_defaults ?s1 i = Some d0"
      and quiet: "filter (reads_interface i) (trace (snd (step e ev s))) = []"
      by simp_all
    from kept Cons.IH[of ?s1]
    have "filter (reads_interface i) (snd (session evs ?s1)) = []"
      by auto
    moreover from kept rest Some
    have "interface_defaults s i = Some d \<longrightarrow> interface_defaults (fst (session evs ?s1)) i = Some d"
      by auto
    ultimately show ?thesis
      unfolding unfold using quiet by simp
  qed
qed

text \<open>
  C6. The first selection of an interface reads its offload flags and its power-saving
  state, once each, and stores the snapshot. From then on, whatever happens in the
  window (other interfaces selected, this one selected again, settings applied or
  reset), the snapshot stays the one stored and neither read is issued again. Counted
  from the opening of the window, the two reads of an interface happen once or never.
\<close>

theorem snapshot_captured_once:
  "(interface_defaults s i = None \<longrightarrow>
      filter (reads_interface i) (trace (snd (step e (Select_interface i) s))) =
        [offload_read i, power_save_read i]
      \<and> interface_defaults (fst (step e (Select_interface i) s)) i \<noteq> None)
   \<and> (interface_defaults s i = Some d \<longrightarrow>
      interface_defaults (fst (session evs s)) i = Some d
      \<and> filter (reads_interface i) (snd (session evs s)) = [])
   \<and> (filter (reads_interface i) (snd (session evs initial_state)) = []
      \<or> filter (reads_interface i) (snd (session evs initial_state)) =
           [offload_read i, power_save_read i])"
proof (intro conjI impI)
  assume "interface_defaults s i = None"
  then show "filter (reads_interface i) (trace (snd (step e (Select_interface i) s))) =
        [offload_read i, power_save_read i]"
    by (simp add: on_interface_change_def load_reads)
  show "interface_defaults (fst (step e (Select_interface i) s)) i \<noteq> None"
    by (simp add: on_interface_change_def load_stores_snapshot)
next
  assume "interface_defaults s i = Some d"
  with session_snapshot[of s i d evs]
  show "interface_defaults (fst (session evs s)) i = Some d"
    and "filter (reads_interface i) (snd (session evs s)) = []"
    by simp_all
next
  from session_snapshot[of initial_state i d evs]
  show "filter (reads_interface i) (snd (session evs initial_state)) = []
      \<or> filter (reads_interface i) (snd (session evs initial_state)) =
           [offload_read i, power_save_read i]"
    by blast
qed

theorem snapshot_captured_once_witness:
  "interface_defaults wlan0_window ''eth0'' = None
   \<and> interface_defaults wlan0_window ''wlan0'' = Some wlan0_snapshot
   \<and> filter (reads_interface ''eth0'')
        (trace (snd (step laptop (Select_interface ''eth0'') wlan0_window))) =
       [Check_output [''ethtool'', ''-k'', ''eth0''],
        Check_output [''iw'', ''dev'', ''eth0'', ''get'', ''power_save'']]
   \<and> interface_defaults
        (fst (session [(laptop, Select_interface ''eth0''), (laptop, Click_reset),
                       (container, Select_interface ''wlan0'')] wlan0_window)) ''wlan0''
       = Some wlan0_snapshot
   \<and> filter (reads_interface ''wlan0'')
        (snd (session [(laptop, Select_interface ''eth0''), (laptop, Click_reset),
                       (container, Select_interface ''wlan0'')] wlan0_window)) = []"
proof -
  have none: "interface_defaults wlan0_window ''eth0'' = None"
    and snap: "interface_defaults wlan0_window ''wlan0'' = Some wlan0_snapshot"
    by (simp_all add: wlan0_window_def)
  from snapshot_captured_once[of wlan0_window "''eth0''" laptop]
    snapshot_captured_once[of wlan0_window "''wlan0''" _ wlan0_snapshot
      "[(laptop, Select_interface ''eth0''), (laptop, Click_reset),
        (container, Select_interface ''wlan0'')]"]
    none snap
  show ?thesis
    by (simp add: offload_read_def power_save_read_def)
qed

end
